theory Spec2Isabelle
  imports Complex_Main
begin

section \<open>Double-precision numbers\<close>

text \<open>
  Python's \<open>float\<close> and numpy's \<open>float64\<close> are IEEE-754 binary64 numbers. A finite
  double is given by the rational number it denotes; the two infinities and NaN are
  values of their own. The two zeros are one value here: they compare equal in Python,
  and the program divides by 2.0, by 5 and by the length of an array only. Every
  arithmetic operation computes the exact rational result and rounds it to the nearest
  double, ties to even.
\<close>

datatype double = Finite rat | PInf | NInf | NaN

function bitlen :: "int \<Rightarrow> int" where
  \<comment> \<open>The number of binary digits of a positive integer.\<close>
  "bitlen i = (if i \<le> 0 then 0 else 1 + bitlen (i div 2))"
  by pat_completeness auto
termination
  by (relation "measure nat") auto

declare bitlen.simps [simp del]

definition floor_log2 :: "rat \<Rightarrow> int" where
  \<comment> \<open>For \<open>q > 0\<close>: the integer \<open>k\<close> with \<open>2^k \<le> q < 2^(k+1)\<close>.\<close>
  "floor_log2 q =
     (if 1 \<le> q then bitlen \<lfloor>q\<rfloor> - 1
      else - bitlen (\<lceil>1 / q\<rceil> - 1))"

definition pow2 :: "int \<Rightarrow> rat" where
  "pow2 e = (if 0 \<le> e then 2 ^ nat e else 1 / 2 ^ nat (- e))"

definition round_half_even :: "rat \<Rightarrow> int" where
  "round_half_even q =
     (let f = \<lfloor>q\<rfloor>; r = q - of_int f
      in if r < 1 / 2 then f
         else if 1 / 2 < r then f + 1
         else if even f then f else f + 1)"

definition round_double :: "rat \<Rightarrow> double" where
  \<comment> \<open>53 significant bits, least exponent \<open>-1074\<close> (subnormals). The rounded value
      \<open>m * 2^e\<close> overflows to an infinity when it reaches \<open>2^1024\<close>, that is when
      \<open>e + bitlen \<bar>m\<bar>\<close> exceeds 1024.\<close>
  "round_double q =
     (if q = 0 then Finite 0
      else let e = max (floor_log2 \<bar>q\<bar> - 52) (- 1074);
               m = round_half_even (q / pow2 e)
           in if 1024 < e + bitlen \<bar>m\<bar> then (if 0 < q then PInf else NInf)
              else Finite (of_int m * pow2 e))"


definition fl_sign :: "double \<Rightarrow> rat" where
  "fl_sign x = (case x of Finite q \<Rightarrow> sgn q | PInf \<Rightarrow> 1 | NInf \<Rightarrow> - 1 | NaN \<Rightarrow> 0)"

definition inf_of_sign :: "rat \<Rightarrow> double" where
  "inf_of_sign s = (if 0 < s then PInf else if s < 0 then NInf else NaN)"

definition fl_add :: "double \<Rightarrow> double \<Rightarrow> double" where
  "fl_add x y =
     (case (x, y) of
        (Finite a, Finite b) \<Rightarrow> round_double (a + b)
      | (Finite a, _) \<Rightarrow> y
      | (_, Finite b) \<Rightarrow> x
      | _ \<Rightarrow> if x = y then x else NaN)"

definition fl_mul :: "double \<Rightarrow> double \<Rightarrow> double" where
  "fl_mul x y =
     (case (x, y) of
        (Finite a, Finite b) \<Rightarrow> round_double (a * b)
      | _ \<Rightarrow> if x = NaN \<or> y = NaN then NaN else inf_of_sign (fl_sign x * fl_sign y))"

definition fl_div :: "double \<Rightarrow> double \<Rightarrow> double" where
  \<comment> \<open>A zero divisor counts as \<open>+0\<close>; the program divides by 2, 5 and a length only.\<close>
  "fl_div x y =
     (case (x, y) of
        (Finite a, Finite b) \<Rightarrow> if b = 0 then inf_of_sign (sgn a) else round_double (a / b)
      | (Finite a, _) \<Rightarrow> if y = NaN then NaN else Finite 0
      | (_, Finite b) \<Rightarrow> if x = NaN then NaN
                         else inf_of_sign (fl_sign x * (if b = 0 then 1 else sgn b))
      | _ \<Rightarrow> NaN)"

definition fl_less :: "double \<Rightarrow> double \<Rightarrow> bool" where
  \<comment> \<open>IEEE \<open><\<close>: false as soon as one side is NaN.\<close>
  "fl_less x y =
     (case (x, y) of
        (Finite a, Finite b) \<Rightarrow> a < b
      | (NaN, _) \<Rightarrow> False
      | (_, NaN) \<Rightarrow> False
      | (NInf, _) \<Rightarrow> y \<noteq> NInf
      | (_, PInf) \<Rightarrow> x \<noteq> PInf
      | _ \<Rightarrow> False)"


section \<open>Python values and exceptions\<close>

text \<open>
  \<open>resp.json()\<close> returns dynamically typed Python values: \<open>None\<close>, booleans, integers of
  any size, floats, strings, lists and dictionaries with string keys. A dictionary is
  the list of its items in insertion order (its keys are distinct), a string the list
  of its characters. Every exception the program can meet is a value, and each is an
  \<open>Exception\<close> that an \<open>except Exception\<close> clause catches; the program's own errors
  are \<open>RuntimeError\<close>s that differ in their message.
\<close>

datatype pyval =
    PyNone
  | PyBool bool
  | PyInt int
  | PyFloat double
  | PyStr string
  | PyList "pyval list"
  | PyDict "(string \<times> pyval) list"

datatype py_exc =
    RuntimeError string
  | TypeError
  | AttributeError
  | KeyError
  | IndexError
  | ValueError
  | OverflowError
  | ZeroDivisionError
  | EOFError
  | RequestException

definition truthy :: "pyval \<Rightarrow> bool" where
  \<comment> \<open>Python's truth value, as \<open>not x\<close> and \<open>if x\<close> test it.\<close>
  "truthy v =
     (case v of
        PyNone \<Rightarrow> False
      | PyBool b \<Rightarrow> b
      | PyInt i \<Rightarrow> i \<noteq> 0
      | PyFloat x \<Rightarrow> x \<noteq> Finite 0
      | PyStr s \<Rightarrow> s \<noteq> []
      | PyList xs \<Rightarrow> xs \<noteq> []
      | PyDict kvs \<Rightarrow> kvs \<noteq> [])"

definition py_iter :: "pyval \<Rightarrow> py_exc + pyval list" where
  \<comment> \<open>The elements \<open>zip(x, ...)\<close> and \<open>list(x)\<close> iterate over: a list's elements, a
      string's characters, a dictionary's keys; nothing else here is iterable.\<close>
  "py_iter v =
     (case v of
        PyList xs \<Rightarrow> Inr xs
      | PyStr s \<Rightarrow> Inr (map (\<lambda>c. PyStr [c]) s)
      | PyDict kvs \<Rightarrow> Inr (map (\<lambda>kv. PyStr (fst kv)) kvs)
      | _ \<Rightarrow> Inl TypeError)"

definition dict_get :: "pyval \<Rightarrow> string \<Rightarrow> pyval \<Rightarrow> py_exc + pyval" where
  \<comment> \<open>\<open>d.get(key, default)\<close>: only a dictionary has the method.\<close>
  "dict_get d k dflt =
     (case d of
        PyDict kvs \<Rightarrow> (case map_of kvs k of None \<Rightarrow> Inr dflt | Some v \<Rightarrow> Inr v)
      | _ \<Rightarrow> Inl AttributeError)"

definition float_of_int :: "int \<Rightarrow> py_exc + double" where
  \<comment> \<open>An integer operand meeting a float is converted, correctly rounded; an integer
      beyond the doubles raises.\<close>
  "float_of_int i =
     (case round_double (of_int i) of
        Finite q \<Rightarrow> Inr (Finite q)
      | _ \<Rightarrow> Inl OverflowError)"

definition num_of :: "pyval \<Rightarrow> (int + double) option" where
  \<comment> \<open>The numbers: integers, floats, and booleans, which are the integers 1 and 0.\<close>
  "num_of v =
     (case v of
        PyBool b \<Rightarrow> Some (Inl (if b then 1 else 0))
      | PyInt i \<Rightarrow> Some (Inl i)
      | PyFloat x \<Rightarrow> Some (Inr x)
      | _ \<Rightarrow> None)"

definition to_float :: "int + double \<Rightarrow> py_exc + double" where
  "to_float n = (case n of Inl i \<Rightarrow> float_of_int i | Inr x \<Rightarrow> Inr x)"

definition py_add :: "pyval \<Rightarrow> pyval \<Rightarrow> py_exc + pyval" where
  \<comment> \<open>\<open>a + b\<close>: integer addition is exact, a float operand makes it a float addition;
      strings and lists concatenate; every other pair of operands is a \<open>TypeError\<close>.\<close>
  "py_add a b =
     (case (num_of a, num_of b) of
        (Some (Inl i), Some (Inl j)) \<Rightarrow> Inr (PyInt (i + j))
      | (Some m, Some n) \<Rightarrow>
          (case to_float m of
             Inl e \<Rightarrow> Inl e
           | Inr x \<Rightarrow>
               (case to_float n of
                  Inl e \<Rightarrow> Inl e
                | Inr y \<Rightarrow> Inr (PyFloat (fl_add x y))))
      | _ \<Rightarrow>
          (case (a, b) of
             (PyStr s, PyStr t) \<Rightarrow> Inr (PyStr (s @ t))
           | (PyList xs, PyList ys) \<Rightarrow> Inr (PyList (xs @ ys))
           | _ \<Rightarrow> Inl TypeError))"

definition py_truediv_float :: "pyval \<Rightarrow> double \<Rightarrow> py_exc + double" where
  \<comment> \<open>\<open>a / y\<close> for a float \<open>y\<close>: defined on numbers only, and a float.\<close>
  "py_truediv_float a y =
     (case num_of a of
        None \<Rightarrow> Inl TypeError
      | Some n \<Rightarrow>
          (case to_float n of
             Inl e \<Rightarrow> Inl e
           | Inr x \<Rightarrow> if y = Finite 0 then Inl ZeroDivisionError else Inr (fl_div x y)))"

definition py_float :: "(string \<Rightarrow> double option) \<Rightarrow> pyval \<Rightarrow> py_exc + double" where
  \<comment> \<open>\<open>float(v)\<close>. Parsing a string is the interpreter's: it is the parameter \<open>parse\<close>.\<close>
  "py_float parse v =
     (case v of
        PyStr s \<Rightarrow> (case parse s of None \<Rightarrow> Inl ValueError | Some x \<Rightarrow> Inr x)
      | _ \<Rightarrow> (case num_of v of None \<Rightarrow> Inl TypeError | Some n \<Rightarrow> to_float n))"

fun digits :: "nat \<Rightarrow> string" where
  "digits n =
     (if n < 10 then [''0123456789'' ! n]
      else digits (n div 10) @ [''0123456789'' ! (n mod 10)])"

declare digits.simps [simp del]

definition str_int :: "int \<Rightarrow> string" where
  \<comment> \<open>\<open>str(i)\<close>, as an f-string formats an integer.\<close>
  "str_int i = (if i < 0 then CHR ''-'' # digits (nat (- i)) else digits (nat i))"

section \<open>The HTTP collaborators\<close>

text \<open>
  \<open>requests.get\<close> is the program's only contact with the network. A request is its
  URL, its query parameters, its timeout and whether the response cache is installed
  when it is sent; the environment maps a request to a response or to the exception
  \<open>requests.get\<close> raises. A response has a status code, a body text and the value
  \<open>resp.json()\<close> decodes from it (\<open>None\<close> when the body is not JSON, and decoding
  raises a \<open>ValueError\<close>).
\<close>

record http_request =
  url :: string
  params :: "(string \<times> pyval) list"
  timeout :: nat
  via_cache :: bool

record http_response =
  status_code :: int
  body_text :: string
  json_body :: "pyval option"

record env =
  http_get :: "http_request \<Rightarrow> py_exc + http_response"
  read_input :: "py_exc + string"
  parse_float :: "string \<Rightarrow> double option"

definition URL :: string where
  "URL = ''https://api.open-meteo.com/v1/forecast''"

definition GEOCODE_URL :: string where
  "GEOCODE_URL = ''https://geocoding-api.open-meteo.com/v1/search''"

definition resp_json :: "http_response \<Rightarrow> py_exc + pyval" where
  "resp_json resp = (case json_body resp of None \<Rightarrow> Inl ValueError | Some v \<Rightarrow> Inr v)"

section \<open>The weather fetcher\<close>

text \<open>
  \<open>fetch_daily_mean_temperature\<close>, in the order of its statements: the request and the
  status check (\<open>weather_response\<close>), the three series read with \<open>.get\<close>
  (\<open>daily_fields\<close>), and the truthiness guard followed by the list comprehension
  over \<open>zip(tmax, tmin)\<close> (\<open>derive_means\<close>). Installing the response cache changes
  no result; the request records whether it is installed.
\<close>

definition weather_request :: "double \<Rightarrow> double \<Rightarrow> string \<Rightarrow> string \<Rightarrow> bool \<Rightarrow> http_request" where
  "weather_request lat lon start end_date use_cache =
     \<lparr>url = URL,
      params =
        [(''latitude'', PyFloat lat),
         (''longitude'', PyFloat lon),
         (''start_date'', PyStr start),
         (''end_date'', PyStr end_date),
         (''daily'', PyStr ''temperature_2m_max,temperature_2m_min''),
         (''timezone'', PyStr ''UTC'')],
      timeout = 10,
      via_cache = use_cache\<rparr>"

definition request_failed :: "http_response \<Rightarrow> py_exc" where
  \<comment> \<open>The error of a status other than 200: it carries the status code and the body.\<close>
  "request_failed resp =
     RuntimeError (''Open-Meteo request failed: '' @ str_int (status_code resp) @ '' '' @ body_text resp)"

definition missing_data :: py_exc where
  "missing_data = RuntimeError ''No daily temperature data returned from Open-Meteo''"

definition weather_response ::
  "env \<Rightarrow> double \<Rightarrow> double \<Rightarrow> string \<Rightarrow> string \<Rightarrow> bool \<Rightarrow> py_exc + pyval" where
  "weather_response ev lat lon start end_date use_cache =
     (case http_get ev (weather_request lat lon start end_date use_cache) of
        Inl e \<Rightarrow> Inl e
      | Inr resp \<Rightarrow>
          if status_code resp \<noteq> 200 then Inl (request_failed resp)
          else resp_json resp)"

definition daily_fields :: "pyval \<Rightarrow> py_exc + pyval \<times> pyval \<times> pyval" where
  "daily_fields data =
     (case dict_get data ''daily'' (PyDict []) of
        Inl e \<Rightarrow> Inl e
      | Inr daily \<Rightarrow>
          (case dict_get daily ''temperature_2m_max'' PyNone of
             Inl e \<Rightarrow> Inl e
           | Inr tmax \<Rightarrow>
               (case dict_get daily ''temperature_2m_min'' PyNone of
                  Inl e \<Rightarrow> Inl e
                | Inr tmin \<Rightarrow>
                    (case dict_get daily ''time'' PyNone of
                       Inl e \<Rightarrow> Inl e
                     | Inr dates \<Rightarrow> Inr (tmax, tmin, dates)))))"

definition daily_mean :: "pyval \<Rightarrow> pyval \<Rightarrow> py_exc + double" where
  \<comment> \<open>\<open>float((mx + mn) / 2.0)\<close>; the quotient is a float already.\<close>
  "daily_mean mx mn =
     (case py_add mx mn of
        Inl e \<Rightarrow> Inl e
      | Inr s \<Rightarrow> py_truediv_float s (Finite 2))"

fun mean_series :: "(pyval \<times> pyval) list \<Rightarrow> py_exc + double list" where
  "mean_series [] = Inr []"
| "mean_series (p # ps) =
     (case daily_mean (fst p) (snd p) of
        Inl e \<Rightarrow> Inl e
      | Inr m \<Rightarrow>
          (case mean_series ps of
             Inl e \<Rightarrow> Inl e
           | Inr ms \<Rightarrow> Inr (m # ms)))"

definition derive_means ::
  "pyval \<Rightarrow> pyval \<Rightarrow> pyval \<Rightarrow> py_exc + double list \<times> pyval list \<times> pyval list \<times> pyval list" where
  "derive_means tmax tmin dates =
     (if \<not> truthy tmax \<or> \<not> truthy tmin \<or> \<not> truthy dates then Inl missing_data
      else
        case py_iter tmax of
          Inl e \<Rightarrow> Inl e
        | Inr mxs \<Rightarrow>
            (case py_iter tmin of
               Inl e \<Rightarrow> Inl e
             | Inr mns \<Rightarrow>
                 (case mean_series (zip mxs mns) of
                    Inl e \<Rightarrow> Inl e
                  | Inr daily_means \<Rightarrow>
                      (case py_iter dates of
                         Inl e \<Rightarrow> Inl e
                       | Inr ds \<Rightarrow> Inr (daily_means, mxs, mns, ds)))))"

definition fetch_daily_mean_temperature ::
  "env \<Rightarrow> double \<Rightarrow> double \<Rightarrow> string \<Rightarrow> string \<Rightarrow> bool
     \<Rightarrow> py_exc + double list \<times> pyval list \<times> pyval list \<times> pyval list" where
  "fetch_daily_mean_temperature ev lat lon start end_date use_cache =
     (case weather_response ev lat lon start end_date use_cache of
        Inl e \<Rightarrow> Inl e
      | Inr data \<Rightarrow>
          (case daily_fields data of
             Inl e \<Rightarrow> Inl e
           | Inr (tmax, tmin, dates) \<Rightarrow> derive_means tmax tmin dates))"

section \<open>The geocoder\<close>

definition py_first :: "pyval \<Rightarrow> py_exc + pyval" where
  \<comment> \<open>\<open>results[0]\<close>, for a truthy \<open>results\<close>: a dictionary has no key 0 (its keys are
      strings), and a number has no items.\<close>
  "py_first v =
     (case v of
        PyList xs \<Rightarrow> (case xs of [] \<Rightarrow> Inl IndexError | x # _ \<Rightarrow> Inr x)
      | PyStr s \<Rightarrow> (case s of [] \<Rightarrow> Inl IndexError | c # _ \<Rightarrow> Inr (PyStr [c]))
      | PyDict kvs \<Rightarrow> Inl KeyError
      | _ \<Rightarrow> Inl TypeError)"

definition py_item :: "pyval \<Rightarrow> string \<Rightarrow> py_exc + pyval" where
  \<comment> \<open>\<open>loc[key]\<close> for a string key.\<close>
  "py_item v k =
     (case v of
        PyDict kvs \<Rightarrow> (case map_of kvs k of None \<Rightarrow> Inl KeyError | Some x \<Rightarrow> Inr x)
      | _ \<Rightarrow> Inl TypeError)"

definition geocode_request :: "string \<Rightarrow> http_request" where
  "geocode_request c =
     \<lparr>url = GEOCODE_URL,
      params = [(''name'', PyStr c), (''count'', PyInt 1)],
      timeout = 10,
      via_cache = False\<rparr>"

definition geocode_city :: "env \<Rightarrow> string \<Rightarrow> py_exc + double \<times> double" where
  "geocode_city ev c =
     (case http_get ev (geocode_request c) of
        Inl e \<Rightarrow> Inl e
      | Inr resp \<Rightarrow>
          if status_code resp \<noteq> 200
          then Inl (RuntimeError (''Geocoding request failed: '' @ str_int (status_code resp)
                                  @ '' '' @ body_text resp))
          else
            case resp_json resp of
              Inl e \<Rightarrow> Inl e
            | Inr data \<Rightarrow>
                (case dict_get data ''results'' PyNone of
                   Inl e \<Rightarrow> Inl e
                 | Inr results \<Rightarrow>
                     if \<not> truthy results
                     then Inl (RuntimeError (''No geocoding results for city: '' @ c))
                     else
                       case py_first results of
                         Inl e \<Rightarrow> Inl e
                       | Inr loc \<Rightarrow>
                           (case py_item loc ''latitude'' of
                              Inl e \<Rightarrow> Inl e
                            | Inr la \<Rightarrow>
                                (case py_float (parse_float ev) la of
                                   Inl e \<Rightarrow> Inl e
                                 | Inr lat \<Rightarrow>
                                     (case py_item loc ''longitude'' of
                                        Inl e \<Rightarrow> Inl e
                                      | Inr lo \<Rightarrow>
                                          (case py_float (parse_float ev) lo of
                                             Inl e \<Rightarrow> Inl e
                                           | Inr lon \<Rightarrow> Inr (lat, lon)))))))"

section \<open>The statistics reducer\<close>

text \<open>
  \<open>compute_stats\<close> works on a numpy array of doubles. \<open>np.max\<close> and \<open>np.min\<close> raise
  a \<open>ValueError\<close> on an empty array and give NaN as soon as one element is NaN.
  \<open>np.mean\<close> is the sum of the elements, each addition rounded, divided by their
  number. The sum is numpy's pairwise summation of a contiguous array: fewer than eight
  elements are added from left to right; up to 128 elements go to eight accumulators
  (element \<open>i\<close> to accumulator \<open>i mod 8\<close>, block after block), the accumulators are
  added as \<open>((r0 + r1) + (r2 + r3)) + ((r4 + r5) + (r6 + r7))\<close> and the elements left
  over after the last full block are added one by one; a longer array is cut at the
  multiple of eight next below its half, and the sums of the two parts are added.
\<close>

record stats =
  highest_c :: double
  lowest_c :: double
  average_c :: double
  fahrenheit :: "double list"
  days_above_20c :: int
  count :: int

definition np_maximum :: "double \<Rightarrow> double \<Rightarrow> double" where
  "np_maximum a b = (if a = NaN then a else if b = NaN then b else if fl_less a b then b else a)"

definition np_minimum :: "double \<Rightarrow> double \<Rightarrow> double" where
  "np_minimum a b = (if a = NaN then a else if b = NaN then b else if fl_less b a then b else a)"

definition np_max :: "double list \<Rightarrow> py_exc + double" where
  "np_max arr = (case arr of [] \<Rightarrow> Inl ValueError | x # xs \<Rightarrow> Inr (foldl np_maximum x xs))"

definition np_min :: "double list \<Rightarrow> py_exc + double" where
  "np_min arr = (case arr of [] \<Rightarrow> Inl ValueError | x # xs \<Rightarrow> Inr (foldl np_minimum x xs))"

function add_blocks :: "double list \<Rightarrow> double list \<Rightarrow> double list \<times> double list" where
  \<comment> \<open>The unrolled loop: every full block of eight is added to the accumulators.\<close>
  "add_blocks r xs =
     (if 8 \<le> length xs then add_blocks (map2 fl_add r (take 8 xs)) (drop 8 xs) else (r, xs))"
  by pat_completeness auto
termination
  by (relation "measure (\<lambda>p. length (snd p))") auto

declare add_blocks.simps [simp del]

definition sum8 :: "double list \<Rightarrow> double" where
  "sum8 r =
     fl_add (fl_add (fl_add (r ! 0) (r ! 1)) (fl_add (r ! 2) (r ! 3)))
            (fl_add (fl_add (r ! 4) (r ! 5)) (fl_add (r ! 6) (r ! 7)))"

definition block_sum :: "double list \<Rightarrow> double" where
  \<comment> \<open>For 8 to 128 elements.\<close>
  "block_sum a =
     (case add_blocks (take 8 a) (drop 8 a) of (r, rest) \<Rightarrow> foldl fl_add (sum8 r) rest)"

definition split_at :: "nat \<Rightarrow> nat" where
  \<comment> \<open>\<open>n2 = n / 2; n2 -= n2 % 8\<close>.\<close>
  "split_at n = n div 2 - (n div 2) mod 8"

function pairwise_sum :: "double list \<Rightarrow> double" where
  "pairwise_sum a =
     (if length a < 8 then foldl fl_add (Finite 0) a
      else if length a \<le> 128 then block_sum a
      else fl_add (pairwise_sum (take (split_at (length a)) a))
                  (pairwise_sum (drop (split_at (length a)) a)))"
  by pat_completeness auto
termination
  by (relation "measure length") (auto simp: split_at_def)

declare pairwise_sum.simps [simp del]

definition np_sum :: "double list \<Rightarrow> double" where
  \<comment> \<open>\<open>np.add.reduce\<close>: the result starts as the identity 0 and takes the pairwise sum.\<close>
  "np_sum arr = fl_add (Finite 0) (pairwise_sum arr)"

definition np_mean :: "double list \<Rightarrow> double" where
  \<comment> \<open>The mean of an empty array is \<open>0 / 0\<close>, NaN, with a warning.\<close>
  "np_mean arr = fl_div (np_sum arr) (round_double (of_nat (length arr)))"

definition compute_stats :: "double list \<Rightarrow> py_exc + stats" where
  "compute_stats temps_celsius =
     (let arr = temps_celsius in
      case np_max arr of
        Inl e \<Rightarrow> Inl e
      | Inr hi \<Rightarrow>
          (case np_min arr of
             Inl e \<Rightarrow> Inl e
           | Inr lo \<Rightarrow>
               Inr \<lparr>highest_c = hi,
                    lowest_c = lo,
                    average_c = np_mean arr,
                    fahrenheit =
                      map (\<lambda>x. fl_add x (Finite 32))
                        (map (\<lambda>x. fl_div x (Finite 5)) (map (\<lambda>x. fl_mul x (Finite 9)) arr)),
                    days_above_20c =
                      sum_list (map (\<lambda>b. if b then 1 else 0)
                                  (map (\<lambda>x. fl_less (Finite 20) x) arr)),
                    count = int (length arr)\<rparr>))"

section \<open>The entry point\<close>

text \<open>
  \<open>main\<close> starts from the parsed arguments. What it does is a trace of events: the
  calls of the three components, the prompt and the printed lines. A printed line
  holds the values it shows; how a number is rendered (the rounding to two decimals
  for display) is not part of the model, but the \<open>TypeError\<close> of \<open>round\<close> on a value
  that is no number is. The outcome is the trace with the value \<open>main\<close> returns, or
  the exception that leaves it uncaught.
\<close>

record args =
  lat :: "double option"
  lon :: "double option"
  city :: "string option"
  start :: string
  end_date :: string
  no_cache :: bool

datatype line =
    Text string
  | Error_fetching py_exc
  | Dates_line pyval pyval int
  | Daily_max "pyval list"
  | Daily_min "pyval list"
  | Highest double
  | Lowest double
  | Average double
  | Fahrenheit_line "double list"
  | Days_above int

datatype event =
    Call_geocode string
  | Call_fetch double double string string bool
  | Call_stats "double list"
  | Prompt string
  | Print_out line
  | Print_err line

record outcome =
  exit_status :: "py_exc + int"
  trace :: "event list"

definition is_space :: "char \<Rightarrow> bool" where
  \<comment> \<open>The whitespace that \<open>str.strip\<close> removes, among the characters a string holds here
      (the code points below 256): the ASCII ones, U+0085 and U+00A0.\<close>
  "is_space c = (of_char c \<in> {9, 10, 11, 12, 13, 28, 29, 30, 31, 32, 133, 160 :: nat})"

definition py_strip :: "string \<Rightarrow> string" where
  "py_strip s = rev (dropWhile is_space (rev (dropWhile is_space s)))"

definition is_number :: "pyval \<Rightarrow> bool" where
  "is_number v = (num_of v \<noteq> None)"

definition locate :: "env \<Rightarrow> string \<Rightarrow> event list \<times> (py_exc + double \<times> double)" where
  "locate ev c = ([Call_geocode c], geocode_city ev c)"

definition ask_city :: "env \<Rightarrow> event list \<times> (py_exc + double \<times> double)" where
  "ask_city ev =
     (case read_input ev of
        Inl e \<Rightarrow> ([Prompt ''Enter a city name (e.g. London): ''], Inl e)
      | Inr s \<Rightarrow>
          (let r = locate ev (py_strip s)
           in (Prompt ''Enter a city name (e.g. London): '' # fst r, snd r)))"

definition resolve_location :: "env \<Rightarrow> args \<Rightarrow> event list \<times> (py_exc + double \<times> double)" where
  \<comment> \<open>\<open>if args.city\<close> is a truthiness test: the empty string counts as no city.\<close>
  "resolve_location ev a =
     (case city a of
        Some (ch # rest) \<Rightarrow> locate ev (ch # rest)
      | _ \<Rightarrow>
          (case lat a of
             None \<Rightarrow> ask_city ev
           | Some la \<Rightarrow>
               (case lon a of
                  None \<Rightarrow> ask_city ev
                | Some lo \<Rightarrow> ([], Inr (la, lo)))))"

definition print_report :: "stats \<Rightarrow> pyval list \<Rightarrow> pyval list \<Rightarrow> pyval list \<Rightarrow> outcome" where
  "print_report st tmax tmin dates =
     (case dates of
        [] \<Rightarrow> \<lparr>exit_status = Inl IndexError, trace = []\<rparr>
      | d # ds \<Rightarrow>
          if \<not> list_all is_number tmax
          then \<lparr>exit_status = Inl TypeError,
                trace = [Print_out (Dates_line d (last dates) (count st))]\<rparr>
          else if \<not> list_all is_number tmin
          then \<lparr>exit_status = Inl TypeError,
                trace = [Print_out (Dates_line d (last dates) (count st)),
                         Print_out (Daily_max tmax)]\<rparr>
          else \<lparr>exit_status = Inr 0,
                trace = [Print_out (Dates_line d (last dates) (count st)),
                         Print_out (Daily_max tmax),
                         Print_out (Daily_min tmin),
                         Print_out (Highest (highest_c st)),
                         Print_out (Lowest (lowest_c st)),
                         Print_out (Average (average_c st)),
                         Print_out (Fahrenheit_line (fahrenheit st)),
                         Print_out (Days_above (days_above_20c st))]\<rparr>)"

definition report ::
  "py_exc + double list \<times> pyval list \<times> pyval list \<times> pyval list \<Rightarrow> outcome" where
  \<comment> \<open>\<open>main\<close> from the \<open>except\<close> clause on: what it does with the fetcher's result.\<close>
  "report fetched =
     (case fetched of
        Inl e \<Rightarrow> \<lparr>exit_status = Inr 2, trace = [Print_err (Error_fetching e)]\<rparr>
      | Inr (temps, tmax, tmin, dates) \<Rightarrow>
          if length temps = 0
          then \<lparr>exit_status = Inr 1,
                trace = [Print_out (Text ''No temperature points returned.'')]\<rparr>
          else
            case compute_stats temps of
              Inl e \<Rightarrow> \<lparr>exit_status = Inl e, trace = [Call_stats temps]\<rparr>
            | Inr st \<Rightarrow>
                (let r = print_report st tmax tmin dates
                 in \<lparr>exit_status = exit_status r, trace = Call_stats temps # trace r\<rparr>))"

type_synonym fetcher =
  "env \<Rightarrow> double \<Rightarrow> double \<Rightarrow> string \<Rightarrow> string \<Rightarrow> bool
     \<Rightarrow> py_exc + double list \<times> pyval list \<times> pyval list \<times> pyval list"

definition main_with :: "fetcher \<Rightarrow> env \<Rightarrow> args \<Rightarrow> outcome" where
  \<comment> \<open>The body of \<open>main\<close>, with the function that the name
      \<open>fetch_daily_mean_temperature\<close> is bound to when \<open>main\<close> calls it.\<close>
  "main_with fetch ev a =
     (case resolve_location ev a of
        (evs, Inl e) \<Rightarrow> \<lparr>exit_status = Inl e, trace = evs\<rparr>
      | (evs, Inr (la, lo)) \<Rightarrow>
          (let use_cache = \<not> no_cache a;
               r = report (fetch ev la lo (start a) (end_date a) use_cache)
           in \<lparr>exit_status = exit_status r,
               trace = evs @ Call_fetch la lo (start a) (end_date a) use_cache # trace r\<rparr>))"

definition main :: "env \<Rightarrow> args \<Rightarrow> outcome" where
  "main ev a = main_with fetch_daily_mean_temperature ev a"

section \<open>Example responses\<close>

text \<open>
  Concrete collaborators for the examples below: a weather body with the three
  series, a geocoding body with one match, and the environment in which the geocoding
  endpoint and the weather endpoint each give one fixed response.
\<close>

definition weather_body :: "pyval \<Rightarrow> pyval \<Rightarrow> pyval \<Rightarrow> pyval" where
  "weather_body tmax tmin dates =
     PyDict [(''daily'',
              PyDict [(''time'', dates),
                      (''temperature_2m_max'', tmax),
                      (''temperature_2m_min'', tmin)])]"

definition ok_response :: "pyval \<Rightarrow> http_response" where
  "ok_response body = \<lparr>status_code = 200, body_text = [], json_body = Some body\<rparr>"

definition geocode_body :: "double \<Rightarrow> double \<Rightarrow> pyval" where
  "geocode_body la lo =
     PyDict [(''results'', PyList [PyDict [(''latitude'', PyFloat la), (''longitude'', PyFloat lo)]])]"

definition serving :: "http_response \<Rightarrow> http_response \<Rightarrow> env" where
  "serving geo weather =
     \<lparr>http_get = (\<lambda>req. if url req = GEOCODE_URL then Inr geo else Inr weather),
      read_input = Inl EOFError,
      parse_float = (\<lambda>s. None)\<rparr>"

definition given_args :: "string option \<Rightarrow> double option \<Rightarrow> double option \<Rightarrow> args" where
  "given_args c la lo =
     \<lparr>lat = la, lon = lo, city = c, start = ''2024-06-01'', end_date = ''2024-06-07'',
      no_cache = False\<rparr>"

definition paris :: http_response where
  "paris = ok_response (geocode_body (Finite 48) (Finite 2))"

definition two_days :: http_response where
  "two_days =
     ok_response
       (weather_body (PyList [PyFloat (Finite 21), PyInt 25])
          (PyList [PyFloat (Finite 10), PyFloat (Finite 16)])
          (PyList [PyStr ''2024-06-01'', PyStr ''2024-06-02'']))"

definition uneven_days :: http_response where
  "uneven_days =
     ok_response
       (weather_body (PyList [PyFloat (Finite 21), PyFloat (Finite 25), PyFloat (Finite 19)])
          (PyList [PyFloat (Finite 10), PyFloat (Finite 16)])
          (PyList [PyStr ''2024-06-01'', PyStr ''2024-06-02'', PyStr ''2024-06-03'']))"

definition no_temperatures :: http_response where
  "no_temperatures =
     ok_response (weather_body (PyList []) (PyList []) (PyList [PyStr ''2024-06-01'']))"

definition no_dates :: http_response where
  "no_dates =
     ok_response
       (weather_body (PyList [PyFloat (Finite 21)]) (PyList [PyFloat (Finite 10)]) (PyList []))"

definition server_error :: http_response where
  "server_error = \<lparr>status_code = 500, body_text = ''Internal Server Error'', json_body = None\<rparr>"

definition mixed_days :: http_response where
  \<comment> \<open>JSON numbers of every kind: floats, integers and a boolean.\<close>
  "mixed_days =
     ok_response
       (weather_body (PyList [PyFloat (Finite 21), PyInt 25, PyInt 30, PyBool True])
          (PyList [PyFloat (Finite 10), PyFloat (Finite 16), PyInt 15, PyInt 2])
          (PyList [PyStr ''2024-06-01'', PyStr ''2024-06-02'', PyStr ''2024-06-03'',
                   PyStr ''2024-06-04'']))"

definition daily_null :: http_response where
  \<comment> \<open>The body \<open>{"daily": null}\<close>.\<close>
  "daily_null = ok_response (PyDict [(''daily'', PyNone)])"

definition null_temperature :: http_response where
  \<comment> \<open>A day without a maximum: \<open>null\<close> in the array.\<close>
  "null_temperature =
     ok_response
       (weather_body (PyList [PyNone]) (PyList [PyFloat (Finite 10)]) (PyList [PyStr ''2024-06-01'']))"

definition empty_fetcher :: fetcher where
  \<comment> \<open>A fetcher that returns four empty sequences.\<close>
  "empty_fetcher ev la lo s e uc = Inr ([], [], [], [])"

definition tenth :: double where
  \<comment> \<open>The double nearest to \<open>0.1\<close>.\<close>
  "tenth = Finite (3602879701896397 / 2 ^ 55)"

section \<open>The vocabulary of the properties\<close>

text \<open>
  What the fetcher receives: the weather endpoint answers with status 200 and a JSON
  object, and \<open>.get\<close> reads these three values from its \<open>daily\<close> object, \<open>None\<close> for
  a series that the response lacks.
\<close>

definition weather_reply ::
  "env \<Rightarrow> double \<Rightarrow> double \<Rightarrow> string \<Rightarrow> string \<Rightarrow> bool \<Rightarrow> pyval \<Rightarrow> pyval \<Rightarrow> pyval \<Rightarrow> bool" where
  "weather_reply ev la lo s e uc tmax tmin dates =
     (case weather_response ev la lo s e uc of
        Inl err \<Rightarrow> False
      | Inr data \<Rightarrow> daily_fields data = Inr (tmax, tmin, dates))"

definition member :: "(string \<times> pyval) list \<Rightarrow> string \<Rightarrow> pyval" where
  \<comment> \<open>The value of a member of a JSON object, \<open>None\<close> when the object lacks it.\<close>
  "member kvs k = (case map_of kvs k of None \<Rightarrow> PyNone | Some v \<Rightarrow> v)"

definition daily_object :: "(string \<times> pyval) list \<Rightarrow> (string \<times> pyval) list option" where
  \<comment> \<open>The \<open>daily\<close> object of a body: the empty object when the body has no such
      member, none when the member is no object.\<close>
  "daily_object d =
     (case map_of d ''daily'' of
        None \<Rightarrow> Some []
      | Some v \<Rightarrow> (case v of PyDict dd \<Rightarrow> Some dd | _ \<Rightarrow> None))"

definition int_value :: "pyval \<Rightarrow> int option" where
  \<comment> \<open>The integer of a JSON integer or boolean.\<close>
  "int_value v =
     (case v of PyInt i \<Rightarrow> Some i | PyBool b \<Rightarrow> Some (if b then 1 else 0) | _ \<Rightarrow> None)"

definition double_of_int :: "int \<Rightarrow> double option" where
  \<comment> \<open>The double nearest to an integer, none when the integer is beyond the doubles.\<close>
  "double_of_int i = (case round_double (of_int i) of Finite q \<Rightarrow> Some (Finite q) | _ \<Rightarrow> None)"

definition operand :: "pyval \<Rightarrow> double option" where
  \<comment> \<open>A JSON number as an operand of a float operation.\<close>
  "operand v =
     (case v of
        PyFloat x \<Rightarrow> Some x
      | _ \<Rightarrow> (case int_value v of None \<Rightarrow> None | Some i \<Rightarrow> double_of_int i))"

definition half_sum :: "pyval \<Rightarrow> pyval \<Rightarrow> double option" where
  \<comment> \<open>\<open>(max + min) / 2\<close> for two JSON numbers: the sum of two integers is exact and
      becomes a double for the division; any other sum is the double sum of the two
      operands. None when an entry is no number or an integer does not fit a double.\<close>
  "half_sum mx mn =
     (case (int_value mx, int_value mn) of
        (Some a, Some b) \<Rightarrow>
          (case double_of_int (a + b) of None \<Rightarrow> None | Some s \<Rightarrow> Some (fl_div s (Finite 2)))
      | _ \<Rightarrow>
          (case (operand mx, operand mn) of
             (Some x, Some y) \<Rightarrow> Some (fl_div (fl_add x y) (Finite 2))
           | _ \<Rightarrow> None))"




definition is_float :: "pyval \<Rightarrow> bool" where
  "is_float v = (case v of PyFloat x \<Rightarrow> True | _ \<Rightarrow> False)"

definition is_series :: "pyval \<Rightarrow> bool" where
  \<comment> \<open>A series of a well-formed response: an array, or none at all.\<close>
  "is_series v = (case v of PyNone \<Rightarrow> True | PyList xs \<Rightarrow> True | _ \<Rightarrow> False)"

definition lacking :: "pyval \<Rightarrow> bool" where
  \<comment> \<open>The series is missing from the response, or it is the empty array.\<close>
  "lacking v = (v = PyNone \<or> v = PyList [])"

definition elements :: "pyval \<Rightarrow> pyval list" where
  "elements v = (case v of PyList xs \<Rightarrow> xs | _ \<Rightarrow> [])"

definition hot_days :: "double list \<Rightarrow> nat set" where
  \<comment> \<open>The indices of the elements strictly greater than 20.\<close>
  "hot_days temps = set (filter (\<lambda>i. fl_less (Finite 20) (temps ! i)) [0..<length temps])"



section \<open>The mean series\<close>

lemma mean_series_length: "mean_series ps = Inr ms \<Longrightarrow> length ms = length ps"
  by (induction ps arbitrary: ms) (auto split: sum.splits)

lemma mean_series_nth:
  "mean_series ps = Inr ms \<Longrightarrow> i < length ps \<Longrightarrow>
     daily_mean (fst (ps ! i)) (snd (ps ! i)) = Inr (ms ! i)"
proof (induction ps arbitrary: ms i)
  case Nil
  then show ?case by simp
next
  case (Cons p ps)
  then show ?case
    by (cases i) (auto split: sum.splits)
qed

lemma daily_mean_floats:
  "daily_mean (PyFloat x) (PyFloat y) = Inr (fl_div (fl_add x y) (Finite 2))"
  by (simp add: daily_mean_def py_add_def num_of_def to_float_def py_truediv_float_def)

lemma mean_series_floats:
  "list_all is_float (map fst ps) \<Longrightarrow> list_all is_float (map snd ps) \<Longrightarrow> \<exists>ms. mean_series ps = Inr ms"
proof (induction ps)
  case Nil
  then show ?case by simp
next
  case (Cons p ps)
  then obtain ms where ms: "mean_series ps = Inr ms" by auto
  from Cons.prems obtain x y where "fst p = PyFloat x" "snd p = PyFloat y"
    by (auto simp: is_float_def split: pyval.splits)
  then show ?case using ms by (simp add: daily_mean_floats)
qed

lemma fetch_of_reply:
  "weather_reply ev la lo s e uc tmax tmin dates \<Longrightarrow>
     fetch_daily_mean_temperature ev la lo s e uc = derive_means tmax tmin dates"
  by (auto simp: weather_reply_def fetch_daily_mean_temperature_def split: sum.splits)

lemma derive_means_lists:
  "derive_means (PyList mxs) (PyList mns) dates = Inr (means, a, b, c) \<Longrightarrow>
     mean_series (zip mxs mns) = Inr means \<and> a = mxs \<and> b = mns \<and> py_iter dates = Inr c"
  by (auto simp: derive_means_def py_iter_def split: if_splits sum.splits)

lemma zip_floats:
  "list_all is_float mxs \<Longrightarrow> list_all is_float mns \<Longrightarrow>
     list_all is_float (map fst (zip mxs mns)) \<and> list_all is_float (map snd (zip mxs mns))"
  by (auto simp: list_all_iff dest: set_zip_leftD set_zip_rightD)

lemma derive_means_float_lists:
  assumes "mxs \<noteq> []" "mns \<noteq> []" "ds \<noteq> []"
    and "list_all is_float mxs" "list_all is_float mns"
  shows "\<exists>means. derive_means (PyList mxs) (PyList mns) (PyList ds) = Inr (means, mxs, mns, ds)"
proof -
  from zip_floats[OF assms(4,5)] obtain ms where "mean_series (zip mxs mns) = Inr ms"
    using mean_series_floats by blast
  then show ?thesis using assms(1-3)
    by (simp add: derive_means_def truthy_def py_iter_def)
qed

text \<open>
  Claim C10. For a maximum and a minimum array of any two lengths, the mean series the
  fetcher returns has the length of the shorter one: \<open>zip\<close> drops the surplus
  silently, while the two arrays themselves are returned whole. For two non-empty
  arrays of floats (and a non-empty array of dates) the fetcher does return, with no
  error and no index out of range.
\<close>

theorem uneven_series_truncated:
  assumes reply: "weather_reply ev la lo s e uc (PyList mxs) (PyList mns) (PyList ds)"
  shows "(\<forall>means a b c. fetch_daily_mean_temperature ev la lo s e uc = Inr (means, a, b, c) \<longrightarrow>
            length means = min (length mxs) (length mns)) \<and>
         (mxs \<noteq> [] \<and> mns \<noteq> [] \<and> ds \<noteq> [] \<and> list_all is_float mxs \<and> list_all is_float mns \<longrightarrow>
            (\<exists>means. fetch_daily_mean_temperature ev la lo s e uc = Inr (means, mxs, mns, ds)))"
proof (intro conjI allI impI)
  fix means a b c
  assume "fetch_daily_mean_temperature ev la lo s e uc = Inr (means, a, b, c)"
  with fetch_of_reply[OF reply]
  have "derive_means (PyList mxs) (PyList mns) (PyList ds) = Inr (means, a, b, c)" by simp
  then have "mean_series (zip mxs mns) = Inr means" by (simp add: derive_means_lists)
  from mean_series_length[OF this] show "length means = min (length mxs) (length mns)" by simp
next
  assume "mxs \<noteq> [] \<and> mns \<noteq> [] \<and> ds \<noteq> [] \<and> list_all is_float mxs \<and> list_all is_float mns"
  then show "\<exists>means. fetch_daily_mean_temperature ev la lo s e uc = Inr (means, mxs, mns, ds)"
    using derive_means_float_lists[of mxs mns ds] fetch_of_reply[OF reply] by simp
qed

theorem uneven_series_truncated_witness:
  "weather_reply (serving paris uneven_days) (Finite 48) (Finite 2) ''2024-06-01'' ''2024-06-07'' True
     (PyList [PyFloat (Finite 21), PyFloat (Finite 25), PyFloat (Finite 19)])
     (PyList [PyFloat (Finite 10), PyFloat (Finite 16)])
     (PyList [PyStr ''2024-06-01'', PyStr ''2024-06-02'', PyStr ''2024-06-03'']) \<and>
   fetch_daily_mean_temperature (serving paris uneven_days) (Finite 48) (Finite 2)
       ''2024-06-01'' ''2024-06-07'' True =
     Inr ([Finite (31 / 2), Finite (41 / 2)],
          [PyFloat (Finite 21), PyFloat (Finite 25), PyFloat (Finite 19)],
          [PyFloat (Finite 10), PyFloat (Finite 16)],
          [PyStr ''2024-06-01'', PyStr ''2024-06-02'', PyStr ''2024-06-03'']) \<and>
   length [Finite (31 / 2), Finite (41 / 2)] =
     min (length [PyFloat (Finite 21), PyFloat (Finite 25), PyFloat (Finite 19)])
         (length [PyFloat (Finite 10), PyFloat (Finite 16)])"
proof -
  have reply:
    "weather_reply (serving paris uneven_days) (Finite 48) (Finite 2) ''2024-06-01'' ''2024-06-07'' True
       (PyList [PyFloat (Finite 21), PyFloat (Finite 25), PyFloat (Finite 19)])
       (PyList [PyFloat (Finite 10), PyFloat (Finite 16)])
       (PyList [PyStr ''2024-06-01'', PyStr ''2024-06-02'', PyStr ''2024-06-03''])"
    by code_simp
  have accepted:
    "fetch_daily_mean_temperature (serving paris uneven_days) (Finite 48) (Finite 2)
         ''2024-06-01'' ''2024-06-07'' True =
       Inr ([Finite (31 / 2), Finite (41 / 2)],
            [PyFloat (Finite 21), PyFloat (Finite 25), PyFloat (Finite 19)],
            [PyFloat (Finite 10), PyFloat (Finite 16)],
            [PyStr ''2024-06-01'', PyStr ''2024-06-02'', PyStr ''2024-06-03''])"
    by code_simp
  from uneven_series_truncated [OF reply] accepted
  have "length [Finite (31 / 2), Finite (41 / 2)] =
     min (length [PyFloat (Finite 21), PyFloat (Finite 25), PyFloat (Finite 19)])
         (length [PyFloat (Finite 10), PyFloat (Finite 16)])"
    by blast
  then show ?thesis using reply accepted by blast
qed

lemma derive_means_nonempty:
  assumes "derive_means tmax tmin dates = Inr (means, a, b, c)"
  shows "means \<noteq> []"
proof -
  from assms have t: "truthy tmax" "truthy tmin"
    by (auto simp: derive_means_def split: if_splits)
  from assms obtain mxs mns where it: "py_iter tmax = Inr mxs" "py_iter tmin = Inr mns"
    and ms: "mean_series (zip mxs mns) = Inr means"
    by (auto simp: derive_means_def split: if_splits sum.splits)
  from t it have "mxs \<noteq> []" "mns \<noteq> []"
    by (auto simp: truthy_def py_iter_def split: pyval.splits)
  then have "0 < length (zip mxs mns)" by (cases mxs; cases mns) auto
  with mean_series_length[OF ms] show ?thesis by (auto simp: min_def split: if_splits)
qed

lemma fetch_nonempty:
  "fetch_daily_mean_temperature ev la lo s e uc = Inr (means, a, b, c) \<Longrightarrow> means \<noteq> []"
  by (auto simp: fetch_daily_mean_temperature_def split: sum.splits dest: derive_means_nonempty)

section \<open>Failures of the fetch\<close>

lemma main_of_location:
  "resolve_location ev ar = (evs, Inr (la, lo)) \<Longrightarrow>
     main ev ar =
       \<lparr>exit_status =
          exit_status (report (fetch_daily_mean_temperature ev la lo (start ar) (end_date ar) (\<not> no_cache ar))),
        trace = evs @ Call_fetch la lo (start ar) (end_date ar) (\<not> no_cache ar) #
          trace (report (fetch_daily_mean_temperature ev la lo (start ar) (end_date ar) (\<not> no_cache ar)))\<rparr>"
  by (simp add: main_def main_with_def Let_def)

lemma report_failure:
  "report (Inl err) = \<lparr>exit_status = Inr 2, trace = [Print_err (Error_fetching err)]\<rparr>"
  by (simp add: report_def)

lemma fetch_status:
  "http_get ev (weather_request la lo s e uc) = Inr resp \<Longrightarrow> status_code resp \<noteq> 200 \<Longrightarrow>
     fetch_daily_mean_temperature ev la lo s e uc = Inl (request_failed resp)"
  by (simp add: fetch_daily_mean_temperature_def weather_response_def)

text \<open>
  Claim C7. A response of the weather endpoint whose status is not 200, and so every
  status that is no success, makes the fetcher fail with the request error, whose
  message carries the status code and the body text. Whatever the failure of the
  fetcher is, the entry point prints it to the error stream and returns 2.
\<close>

theorem fetch_failure_exit_2:
  assumes loc: "resolve_location ev ar = (evs, Inr (la, lo))"
  shows "(\<forall>resp. http_get ev (weather_request la lo (start ar) (end_date ar) (\<not> no_cache ar)) = Inr resp \<and>
              status_code resp \<noteq> 200 \<longrightarrow>
            fetch_daily_mean_temperature ev la lo (start ar) (end_date ar) (\<not> no_cache ar) =
              Inl (RuntimeError (''Open-Meteo request failed: '' @ str_int (status_code resp)
                                 @ '' '' @ body_text resp))) \<and>
         (\<forall>err. fetch_daily_mean_temperature ev la lo (start ar) (end_date ar) (\<not> no_cache ar) = Inl err \<longrightarrow>
            main ev ar =
              \<lparr>exit_status = Inr 2,
               trace = evs @ [Call_fetch la lo (start ar) (end_date ar) (\<not> no_cache ar),
                              Print_err (Error_fetching err)]\<rparr>)"
  using main_of_location[OF loc]
  by (auto simp: fetch_status request_failed_def report_failure)

theorem fetch_failure_exit_2_witness:
  "resolve_location (serving paris server_error) (given_args None (Some (Finite 48)) (Some (Finite 2))) =
     ([], Inr (Finite 48, Finite 2)) \<and>
   http_get (serving paris server_error)
       (weather_request (Finite 48) (Finite 2) ''2024-06-01'' ''2024-06-07'' True) =
     Inr server_error \<and>
   status_code server_error \<noteq> 200 \<and>
   fetch_daily_mean_temperature (serving paris server_error) (Finite 48) (Finite 2)
       ''2024-06-01'' ''2024-06-07'' True =
     Inl (RuntimeError ''Open-Meteo request failed: 500 Internal Server Error'') \<and>
   main (serving paris server_error) (given_args None (Some (Finite 48)) (Some (Finite 2))) =
     \<lparr>exit_status = Inr 2,
      trace = [Call_fetch (Finite 48) (Finite 2) ''2024-06-01'' ''2024-06-07'' True,
               Print_err (Error_fetching
                 (RuntimeError ''Open-Meteo request failed: 500 Internal Server Error''))]\<rparr>"
proof -
  let ?ev = "serving paris server_error"
  let ?ar = "given_args None (Some (Finite 48)) (Some (Finite 2))"
  have loc: "resolve_location ?ev ?ar = ([], Inr (Finite 48, Finite 2))"
    by code_simp
  have ar: "start ?ar = ''2024-06-01''" "end_date ?ar = ''2024-06-07''" "(\<not> no_cache ?ar) = True"
    by (simp_all add: given_args_def)
  have get: "http_get ?ev (weather_request (Finite 48) (Finite 2) ''2024-06-01'' ''2024-06-07'' True) =
      Inr server_error"
    by code_simp
  have st: "status_code server_error \<noteq> 200" by code_simp
  have msg: "''Open-Meteo request failed: '' @ str_int (status_code server_error) @ '' '' @
      body_text server_error = ''Open-Meteo request failed: 500 Internal Server Error''"
    by code_simp
  from fetch_failure_exit_2 [OF loc] get st
  have f: "fetch_daily_mean_temperature ?ev (Finite 48) (Finite 2) ''2024-06-01'' ''2024-06-07'' True =
      Inl (RuntimeError ''Open-Meteo request failed: 500 Internal Server Error'')"
    unfolding ar msg [symmetric] by blast
  from fetch_failure_exit_2 [OF loc] f
  have "main ?ev ?ar =
     \<lparr>exit_status = Inr 2,
      trace = [] @ [Call_fetch (Finite 48) (Finite 2) ''2024-06-01'' ''2024-06-07'' True,
               Print_err (Error_fetching
                 (RuntimeError ''Open-Meteo request failed: 500 Internal Server Error''))]\<rparr>"
    unfolding ar by blast
  then show ?thesis using loc get st f by simp
qed

section \<open>Resolving the location\<close>

text \<open>
  Claim C8. Whenever a city name is supplied, the location is what geocoding that city
  gives (its coordinates, or its failure), and latitude and longitude play no part,
  whatever they are; the fetch that follows a successful geocoding is for the geocoded
  coordinates. A city name is a non-empty string: \<open>if args.city\<close> treats the empty
  string as no city at all.
\<close>

theorem city_has_priority:
  assumes "city ar = Some c" and "c \<noteq> []"
  shows "resolve_location ev ar = ([Call_geocode c], geocode_city ev c) \<and>
         resolve_location ev (ar\<lparr>lat := la, lon := lo\<rparr>) = resolve_location ev ar \<and>
         (\<forall>gla glo. geocode_city ev c = Inr (gla, glo) \<longrightarrow>
            take 2 (trace (main ev ar)) =
              [Call_geocode c, Call_fetch gla glo (start ar) (end_date ar) (\<not> no_cache ar)])"
proof -
  have r: "resolve_location ev ar = ([Call_geocode c], geocode_city ev c)"
    using assms by (cases c) (simp_all add: resolve_location_def locate_def)
  have "resolve_location ev (ar\<lparr>lat := la, lon := lo\<rparr>) = resolve_location ev ar"
    using assms by (cases c) (simp_all add: resolve_location_def locate_def)
  moreover have "take 2 (trace (main ev ar)) =
      [Call_geocode c, Call_fetch gla glo (start ar) (end_date ar) (\<not> no_cache ar)]"
    if "geocode_city ev c = Inr (gla, glo)" for gla glo
    using main_of_location[of ev ar "[Call_geocode c]" gla glo] r that by simp
  ultimately show ?thesis using r by blast
qed

theorem city_has_priority_witness:
  "city (given_args (Some ''Paris'') (Some (Finite 1)) (Some (Finite 2))) = Some ''Paris'' \<and>
   ''Paris'' \<noteq> [] \<and>
   geocode_city (serving paris two_days) ''Paris'' = Inr (Finite 48, Finite 2) \<and>
   resolve_location (serving paris two_days)
       (given_args (Some ''Paris'') (Some (Finite 1)) (Some (Finite 2))) =
     ([Call_geocode ''Paris''], Inr (Finite 48, Finite 2)) \<and>
   take 2 (trace (main (serving paris two_days)
       (given_args (Some ''Paris'') (Some (Finite 1)) (Some (Finite 2))))) =
     [Call_geocode ''Paris'',
      Call_fetch (Finite 48) (Finite 2) ''2024-06-01'' ''2024-06-07'' True]"
proof -
  let ?ar = "given_args (Some ''Paris'') (Some (Finite 1)) (Some (Finite 2))"
  have c: "city ?ar = Some ''Paris''" by (simp add: given_args_def)
  have n: "''Paris'' \<noteq> []" by simp
  have ar: "start ?ar = ''2024-06-01''" "end_date ?ar = ''2024-06-07''" "(\<not> no_cache ?ar) = True"
    by (simp_all add: given_args_def)
  have g: "geocode_city (serving paris two_days) ''Paris'' = Inr (Finite 48, Finite 2)"
    by code_simp
  from city_has_priority [OF c n, of "serving paris two_days"] g
  have "resolve_location (serving paris two_days) ?ar =
      ([Call_geocode ''Paris''], Inr (Finite 48, Finite 2)) \<and>
    take 2 (trace (main (serving paris two_days) ?ar)) =
     [Call_geocode ''Paris'',
      Call_fetch (Finite 48) (Finite 2) (start ?ar) (end_date ?ar) (\<not> no_cache ?ar)]"
    by simp
  then show ?thesis using c g unfolding ar by simp
qed

text \<open>
  The empty string is no city name: with \<open>--city ''\<close> and both coordinates given,
  the coordinates are the location and nothing is geocoded.
\<close>

theorem empty_city_is_no_city:
  assumes "city ar = Some []" and "lat ar = Some la" and "lon ar = Some lo"
  shows "resolve_location ev ar = ([], Inr (la, lo))"
  using assms by (simp add: resolve_location_def)

theorem empty_city_is_no_city_witness:
  "city (given_args (Some []) (Some (Finite 1)) (Some (Finite 2))) = Some [] \<and>
   lat (given_args (Some []) (Some (Finite 1)) (Some (Finite 2))) = Some (Finite 1) \<and>
   lon (given_args (Some []) (Some (Finite 1)) (Some (Finite 2))) = Some (Finite 2) \<and>
   resolve_location (serving paris two_days)
       (given_args (Some []) (Some (Finite 1)) (Some (Finite 2))) =
     ([], Inr (Finite 1, Finite 2))"
proof -
  let ?ar = "given_args (Some []) (Some (Finite 1)) (Some (Finite 2))"
  have h: "city ?ar = Some []" "lat ?ar = Some (Finite 1)" "lon ?ar = Some (Finite 2)"
    by (simp_all add: given_args_def)
  from empty_city_is_no_city [OF h, of "serving paris two_days"] h show ?thesis by simp
qed

text \<open>
  A geocoding response without matches aborts \<open>main\<close> with the no-results error,
  uncaught, before any fetch is attempted.
\<close>

theorem no_geocoding_results_abort:
  assumes "city ar = Some c" and "c \<noteq> []"
    and "http_get ev (geocode_request c) = Inr resp"
    and "status_code resp = 200"
    and "json_body resp = Some (PyDict kvs)"
    and "map_of kvs ''results'' = None \<or> map_of kvs ''results'' = Some (PyList [])"
  shows "main ev ar =
           \<lparr>exit_status = Inl (RuntimeError (''No geocoding results for city: '' @ c)),
            trace = [Call_geocode c]\<rparr>"
proof -
  from assms(3-6) have "geocode_city ev c = Inl (RuntimeError (''No geocoding results for city: '' @ c))"
    by (auto simp: geocode_city_def resp_json_def dict_get_def truthy_def)
  moreover from assms(1,2) have "resolve_location ev ar = ([Call_geocode c], geocode_city ev c)"
    by (cases c) (simp_all add: resolve_location_def locate_def)
  ultimately show ?thesis by (simp add: main_def main_with_def)
qed

theorem no_geocoding_results_abort_witness:
  "city (given_args (Some ''Nowhereville'') None None) = Some ''Nowhereville'' \<and>
   ''Nowhereville'' \<noteq> [] \<and>
   http_get (serving (ok_response (PyDict [(''results'', PyList [])])) two_days)
       (geocode_request ''Nowhereville'') =
     Inr (ok_response (PyDict [(''results'', PyList [])])) \<and>
   main (serving (ok_response (PyDict [(''results'', PyList [])])) two_days)
       (given_args (Some ''Nowhereville'') None None) =
     \<lparr>exit_status = Inl (RuntimeError ''No geocoding results for city: Nowhereville''),
      trace = [Call_geocode ''Nowhereville'']\<rparr>"
proof -
  let ?geo = "ok_response (PyDict [(''results'', PyList [])])"
  let ?ar = "given_args (Some ''Nowhereville'') None None"
  have c: "city ?ar = Some ''Nowhereville''" by (simp add: given_args_def)
  have n: "''Nowhereville'' \<noteq> []" by simp
  have g: "http_get (serving ?geo two_days) (geocode_request ''Nowhereville'') = Inr ?geo"
    by code_simp
  have s: "status_code ?geo = 200" by (simp add: ok_response_def)
  have j: "json_body ?geo = Some (PyDict [(''results'', PyList [])])" by (simp add: ok_response_def)
  have r: "map_of [(''results'', PyList [])] ''results'' = None \<or>
           map_of [(''results'', PyList [])] ''results'' = Some (PyList [])"
    by simp
  from no_geocoding_results_abort [OF c n g s j r] show ?thesis using c g by simp
qed

section \<open>The branch for an empty mean series\<close>

lemma resolve_location_trace:
  "Print_out l \<notin> set (fst (resolve_location ev ar))"
  by (auto simp: resolve_location_def locate_def ask_city_def Let_def
      split: option.splits list.splits sum.splits)

lemma print_report_exit: "exit_status (print_report st tmax tmin dates) \<noteq> Inr 1"
  by (auto simp: print_report_def split: list.splits)

lemma print_report_trace:
  "Print_out (Text t) \<notin> set (trace (print_report st tmax tmin dates))"
  by (auto simp: print_report_def split: list.splits)

lemma report_fetched:
  assumes "means \<noteq> []"
  shows "exit_status (report (Inr (means, a, b, c))) \<noteq> Inr 1 \<and>
         Print_out (Text t) \<notin> set (trace (report (Inr (means, a, b, c))))"
  using assms print_report_exit print_report_trace
  by (auto simp: report_def Let_def split: sum.splits)

lemma report_of_fetch:
  "exit_status (report (fetch_daily_mean_temperature ev la lo s e uc)) \<noteq> Inr 1 \<and>
   Print_out (Text t) \<notin> set (trace (report (fetch_daily_mean_temperature ev la lo s e uc)))"
proof (cases "fetch_daily_mean_temperature ev la lo s e uc")
  case (Inl err)
  then show ?thesis by (simp add: report_failure)
next
  case (Inr r)
  obtain means a b c where r: "r = (means, a, b, c)" by (cases r) auto
  with Inr fetch_nonempty have "means \<noteq> []" by blast
  with Inr r report_fetched show ?thesis by simp
qed

text \<open>
  Claim C9. A mean series the fetcher returns is never empty: a maximum or a minimum
  series that is empty (or missing) is rejected before the means are computed, and
  \<open>zip\<close> of two non-empty series is non-empty. So \<open>main\<close> never returns 1 and never
  prints the line of its empty-result branch, in any environment and for any arguments.
\<close>

theorem no_data_branch_unreachable:
  "(fetch_daily_mean_temperature ev la lo s e uc = Inr (means, a, b, c) \<longrightarrow> means \<noteq> []) \<and>
   exit_status (main ev ar) \<noteq> Inr 1 \<and>
   Print_out (Text ''No temperature points returned.'') \<notin> set (trace (main ev ar))"
proof (intro conjI impI)
  assume "fetch_daily_mean_temperature ev la lo s e uc = Inr (means, a, b, c)"
  then show "means \<noteq> []" by (rule fetch_nonempty)
next
  obtain evs r where loc: "resolve_location ev ar = (evs, r)" by (cases "resolve_location ev ar") auto
  then show "exit_status (main ev ar) \<noteq> Inr 1"
    using report_of_fetch by (cases r) (auto simp: main_def main_with_def Let_def)
  from resolve_location_trace[of _ ev ar] loc
  have "Print_out l \<notin> set evs" for l by simp
  then show "Print_out (Text ''No temperature points returned.'') \<notin> set (trace (main ev ar))"
    using report_of_fetch loc by (cases r) (auto simp: main_def main_with_def Let_def)
qed

theorem no_data_branch_unreachable_witness:
  "fetch_daily_mean_temperature (serving paris two_days) (Finite 48) (Finite 2)
       ''2024-06-01'' ''2024-06-07'' True =
     Inr ([Finite (31 / 2), Finite (41 / 2)],
          [PyFloat (Finite 21), PyInt 25], [PyFloat (Finite 10), PyFloat (Finite 16)],
          [PyStr ''2024-06-01'', PyStr ''2024-06-02'']) \<and>
   [Finite (31 / 2), Finite (41 / 2)] \<noteq> [] \<and>
   exit_status (main (serving paris two_days) (given_args (Some ''Paris'') None None)) \<noteq> Inr 1 \<and>
   exit_status (main (serving paris two_days) (given_args (Some ''Paris'') None None)) = Inr 0"
proof -
  have accepted:
    "fetch_daily_mean_temperature (serving paris two_days) (Finite 48) (Finite 2)
         ''2024-06-01'' ''2024-06-07'' True =
       Inr ([Finite (31 / 2), Finite (41 / 2)],
            [PyFloat (Finite 21), PyInt 25], [PyFloat (Finite 10), PyFloat (Finite 16)],
            [PyStr ''2024-06-01'', PyStr ''2024-06-02''])"
    by code_simp
  have ok: "exit_status (main (serving paris two_days) (given_args (Some ''Paris'') None None)) = Inr 0"
    by code_simp
  from no_data_branch_unreachable
    [of "serving paris two_days" "Finite 48" "Finite 2" "''2024-06-01''" "''2024-06-07''" True
        "[Finite (31 / 2), Finite (41 / 2)]" _ _ _ "given_args (Some ''Paris'') None None"]
    accepted
  have "[Finite (31 / 2), Finite (41 / 2)] \<noteq> [] \<and>
     exit_status (main (serving paris two_days) (given_args (Some ''Paris'') None None)) \<noteq> Inr 1"
    by blast
  then show ?thesis using accepted ok by blast
qed

section \<open>Missing data\<close>

lemma to_float_error: "to_float n = Inl err \<Longrightarrow> err = OverflowError"
  by (auto simp: to_float_def float_of_int_def split: sum.splits double.splits)

lemma py_add_error: "py_add a b = Inl err \<Longrightarrow> err = TypeError \<or> err = OverflowError"
  by (auto simp: py_add_def split: option.splits sum.splits pyval.splits prod.splits
      dest: to_float_error)

lemma py_truediv_float_error:
  "py_truediv_float a y = Inl err \<Longrightarrow>
     err = TypeError \<or> err = OverflowError \<or> err = ZeroDivisionError"
  by (auto simp: py_truediv_float_def split: option.splits sum.splits if_splits
      dest: to_float_error)

lemma daily_mean_error:
  "daily_mean a b = Inl err \<Longrightarrow> err = TypeError \<or> err = OverflowError \<or> err = ZeroDivisionError"
  by (auto simp: daily_mean_def split: sum.splits
      dest: py_add_error py_truediv_float_error)

lemma mean_series_error:
  "mean_series ps = Inl err \<Longrightarrow> err = TypeError \<or> err = OverflowError \<or> err = ZeroDivisionError"
proof (induction ps)
  case Nil
  then show ?case by simp
next
  case (Cons p ps)
  then show ?case
    by (auto split: sum.splits dest: daily_mean_error)
qed

lemma derive_means_missing:
  "(derive_means tmax tmin dates = Inl missing_data) =
     (\<not> truthy tmax \<or> \<not> truthy tmin \<or> \<not> truthy dates)"
proof -
  have "err \<noteq> missing_data" if "py_iter v = Inl err" for v err
    using that by (auto simp: py_iter_def missing_data_def split: pyval.splits)
  moreover have "err \<noteq> missing_data" if "mean_series ps = Inl err" for ps err
    using mean_series_error[OF that] by (auto simp: missing_data_def)
  ultimately show ?thesis
    by (auto simp: derive_means_def split: sum.splits)
qed

lemma series_truthy: "is_series v \<Longrightarrow> truthy v = (\<not> lacking v)"
  by (auto simp: is_series_def truthy_def lacking_def split: pyval.splits)

lemma series_elements: "is_series v \<Longrightarrow> \<not> lacking v \<Longrightarrow> v = PyList (elements v) \<and> elements v \<noteq> []"
  by (auto simp: is_series_def elements_def lacking_def split: pyval.splits)

section \<open>Empty series\<close>

lemma report_empty:
  "report (Inr ([], a, b, c)) =
     \<lparr>exit_status = Inr 1, trace = [Print_out (Text ''No temperature points returned.'')]\<rparr>"
  by (simp add: report_def)

lemma derive_means_empty:
  "tmax = PyList [] \<or> tmin = PyList [] \<Longrightarrow> derive_means tmax tmin dates = Inl missing_data"
  by (auto simp: derive_means_def truthy_def)

lemma resolve_location_calls:
  "Call_stats t \<notin> set (fst (resolve_location ev ar))"
  by (auto simp: resolve_location_def locate_def ask_city_def Let_def
      split: option.splits list.splits sum.splits)

text \<open>
  Claim C1. When the fetcher that \<open>main\<close> calls returns an empty mean series, \<open>main\<close>
  prints its no-data line and returns 1, and the statistics reducer is not called: the
  trace holds the fetch and the printed line after the events of the location, and no
  call of the reducer. This holds whatever the other three sequences are, and so for
  empty maximum and minimum arrays from the fetcher.
\<close>

theorem no_data_exit:
  assumes loc: "resolve_location ev ar = (evs, Inr (la, lo))"
    and empty: "fetch ev la lo (start ar) (end_date ar) (\<not> no_cache ar) = Inr ([], tmax, tmin, dates)"
  shows "main_with fetch ev ar =
           \<lparr>exit_status = Inr 1,
            trace = evs @ [Call_fetch la lo (start ar) (end_date ar) (\<not> no_cache ar),
                           Print_out (Text ''No temperature points returned.'')]\<rparr> \<and>
         (\<forall>t. Call_stats t \<notin> set (trace (main_with fetch ev ar))) \<and>
         report (Inr ([], tmax, tmin, dates)) =
           \<lparr>exit_status = Inr 1,
            trace = [Print_out (Text ''No temperature points returned.'')]\<rparr>"
proof -
  have r: "report (Inr ([], tmax, tmin, dates)) =
      \<lparr>exit_status = Inr 1, trace = [Print_out (Text ''No temperature points returned.'')]\<rparr>"
    by (rule report_empty)
  have m: "main_with fetch ev ar =
           \<lparr>exit_status = Inr 1,
            trace = evs @ [Call_fetch la lo (start ar) (end_date ar) (\<not> no_cache ar),
                           Print_out (Text ''No temperature points returned.'')]\<rparr>"
    using loc empty r by (simp add: main_with_def Let_def)
  have "Call_stats t \<notin> set evs" for t
    using resolve_location_calls[of t ev ar] loc by simp
  then have "\<forall>t. Call_stats t \<notin> set (trace (main_with fetch ev ar))"
    unfolding m by simp
  with m r show ?thesis by blast
qed

theorem no_data_exit_witness:
  "resolve_location (serving paris two_days)
       (given_args None (Some (Finite 48)) (Some (Finite 2))) = ([], Inr (Finite 48, Finite 2)) \<and>
   empty_fetcher (serving paris two_days) (Finite 48) (Finite 2) ''2024-06-01'' ''2024-06-07'' True =
     Inr ([], [], [], []) \<and>
   main_with empty_fetcher (serving paris two_days)
       (given_args None (Some (Finite 48)) (Some (Finite 2))) =
     \<lparr>exit_status = Inr 1,
      trace = [Call_fetch (Finite 48) (Finite 2) ''2024-06-01'' ''2024-06-07'' True,
               Print_out (Text ''No temperature points returned.'')]\<rparr> \<and>
   Call_stats [] \<notin> set (trace (main_with empty_fetcher (serving paris two_days)
       (given_args None (Some (Finite 48)) (Some (Finite 2)))))"
proof -
  let ?ev = "serving paris two_days"
  let ?ar = "given_args None (Some (Finite 48)) (Some (Finite 2))"
  have loc: "resolve_location ?ev ?ar = ([], Inr (Finite 48, Finite 2))"
    by code_simp
  have ar: "start ?ar = ''2024-06-01''" "end_date ?ar = ''2024-06-07''" "(\<not> no_cache ?ar) = True"
    by (simp_all add: given_args_def)
  have empty: "empty_fetcher ?ev (Finite 48) (Finite 2) (start ?ar) (end_date ?ar) (\<not> no_cache ?ar) =
      Inr ([], [], [], [])"
    by (simp add: empty_fetcher_def)
  from no_data_exit [where fetch = empty_fetcher, OF loc empty]
  show ?thesis using loc empty unfolding ar by simp
qed

text \<open>
  The fetcher of this program never returns so: an empty maximum or minimum array in
  the response of the weather endpoint is rejected with the missing-data error, which
  \<open>main\<close> prints to the error stream before it returns 2.
\<close>

theorem empty_arrays_rejected:
  assumes loc: "resolve_location ev ar = (evs, Inr (la, lo))"
    and reply: "weather_reply ev la lo (start ar) (end_date ar) (\<not> no_cache ar) tmax tmin dates"
    and empty: "tmax = PyList [] \<or> tmin = PyList []"
  shows "fetch_daily_mean_temperature ev la lo (start ar) (end_date ar) (\<not> no_cache ar) =
           Inl missing_data \<and>
         main ev ar =
           \<lparr>exit_status = Inr 2,
            trace = evs @ [Call_fetch la lo (start ar) (end_date ar) (\<not> no_cache ar),
                           Print_err (Error_fetching missing_data)]\<rparr>"
proof -
  have f: "fetch_daily_mean_temperature ev la lo (start ar) (end_date ar) (\<not> no_cache ar) =
      Inl missing_data"
    using fetch_of_reply[OF reply] derive_means_empty[OF empty] by simp
  show ?thesis
    using f main_of_location[OF loc] by (simp add: report_failure)
qed

theorem empty_arrays_rejected_witness:
  "resolve_location (serving paris no_temperatures)
       (given_args None (Some (Finite 48)) (Some (Finite 2))) = ([], Inr (Finite 48, Finite 2)) \<and>
   weather_reply (serving paris no_temperatures) (Finite 48) (Finite 2)
     ''2024-06-01'' ''2024-06-07'' True (PyList []) (PyList []) (PyList [PyStr ''2024-06-01'']) \<and>
   fetch_daily_mean_temperature (serving paris no_temperatures) (Finite 48) (Finite 2)
     ''2024-06-01'' ''2024-06-07'' True = Inl missing_data \<and>
   exit_status (main (serving paris no_temperatures)
     (given_args None (Some (Finite 48)) (Some (Finite 2)))) = Inr 2"
proof -
  let ?ev = "serving paris no_temperatures"
  let ?ar = "given_args None (Some (Finite 48)) (Some (Finite 2))"
  have loc: "resolve_location ?ev ?ar = ([], Inr (Finite 48, Finite 2))"
    by code_simp
  have ar: "start ?ar = ''2024-06-01''" "end_date ?ar = ''2024-06-07''" "(\<not> no_cache ?ar) = True"
    by (simp_all add: given_args_def)
  have reply: "weather_reply ?ev (Finite 48) (Finite 2) (start ?ar) (end_date ?ar) (\<not> no_cache ?ar)
      (PyList []) (PyList []) (PyList [PyStr ''2024-06-01''])"
    unfolding ar by code_simp
  have empty: "PyList [] = PyList [] \<or> PyList [] = PyList []" by simp
  from empty_arrays_rejected [OF loc reply empty]
  show ?thesis using loc reply unfolding ar by simp
qed

section \<open>The statistics\<close>

lemma compute_stats_nonempty:
  "temps \<noteq> [] \<Longrightarrow> \<exists>hi lo. np_max temps = Inr hi \<and> np_min temps = Inr lo \<and>
     compute_stats temps =
       Inr \<lparr>highest_c = hi, lowest_c = lo, average_c = np_mean temps,
            fahrenheit =
              map (\<lambda>x. fl_add x (Finite 32))
                (map (\<lambda>x. fl_div x (Finite 5)) (map (\<lambda>x. fl_mul x (Finite 9)) temps)),
            days_above_20c =
              sum_list (map (\<lambda>b. if b then 1 else 0) (map (\<lambda>x. fl_less (Finite 20) x) temps)),
            count = int (length temps)\<rparr>"
  by (cases temps) (simp_all add: compute_stats_def np_max_def np_min_def)

lemma sum_of_flags: "sum_list (map (\<lambda>b. if b then 1 else 0) (map P xs)) = int (length (filter P xs))"
  by (induction xs) simp_all

lemma hot_days_card: "card (hot_days temps) = length (filter (fl_less (Finite 20)) temps)"
proof -
  have "hot_days temps = {i. i < length temps \<and> fl_less (Finite 20) (temps ! i)}"
    by (auto simp: hot_days_def)
  then show ?thesis by (simp add: length_filter_conv_card)
qed

text \<open>
  Claim C5. For a non-empty series the reducer returns, and \<open>days_above_20c\<close> is the
  number of indices whose element is strictly greater than 20; an element equal to 20
  is not among them.
\<close>

theorem days_above_20_strict:
  assumes "temps \<noteq> []"
  shows "\<exists>st. compute_stats temps = Inr st \<and>
           days_above_20c st = int (card (hot_days temps)) \<and>
           (\<forall>i<length temps. temps ! i = Finite 20 \<longrightarrow> i \<notin> hot_days temps)"
proof -
  from compute_stats_nonempty[OF assms] obtain st where
    st: "compute_stats temps = Inr st"
    and d: "days_above_20c st =
      sum_list (map (\<lambda>b. if b then 1 else 0) (map (\<lambda>x. fl_less (Finite 20) x) temps))"
    by force
  have "days_above_20c st = int (card (hot_days temps))"
    using d unfolding sum_of_flags hot_days_card .
  moreover have "\<forall>i<length temps. temps ! i = Finite 20 \<longrightarrow> i \<notin> hot_days temps"
    by (auto simp: hot_days_def fl_less_def)
  ultimately show ?thesis using st by blast
qed

theorem days_above_20_strict_witness:
  "[Finite 18, Finite 20, Finite (45 / 2), Finite 15] \<noteq> [] \<and>
   (\<exists>st. compute_stats [Finite 18, Finite 20, Finite (45 / 2), Finite 15] = Inr st \<and>
      days_above_20c st = 1) \<and>
   hot_days [Finite 18, Finite 20, Finite (45 / 2), Finite 15] = {2}"
proof -
  let ?t = "[Finite 18, Finite 20, Finite (45 / 2), Finite 15]"
  have n: "?t \<noteq> []" by simp
  have h: "hot_days ?t = {2}" by code_simp
  from days_above_20_strict [OF n] obtain st where
    st: "compute_stats ?t = Inr st" "days_above_20c st = int (card (hot_days ?t))"
    by blast
  from st(2) h have "days_above_20c st = 1" by simp
  with st(1) n h show ?thesis by blast
qed

lemma fahrenheit_0: "fl_add (fl_div (fl_mul (Finite 0) (Finite 9)) (Finite 5)) (Finite 32) = Finite 32"
  by code_simp

lemma fahrenheit_100:
  "fl_add (fl_div (fl_mul (Finite 100) (Finite 9)) (Finite 5)) (Finite 32) = Finite 212"
  by code_simp

text \<open>
  Claim C6. For a non-empty series the Fahrenheit series has the same length, and its
  element \<open>i\<close> is \<open>mean[i] * 9 / 5 + 32\<close>, the three operations in this order in double
  arithmetic (the same double; a NaN stays a NaN). An element 0 gives 32 and an
  element 100 gives 212, exactly.
\<close>

theorem fahrenheit_pointwise:
  assumes "temps \<noteq> []"
  shows "\<exists>st. compute_stats temps = Inr st \<and>
           length (fahrenheit st) = length temps \<and>
           (\<forall>i<length temps.
              fahrenheit st ! i =
                fl_add (fl_div (fl_mul (temps ! i) (Finite 9)) (Finite 5)) (Finite 32)) \<and>
           (\<forall>i<length temps.
              (temps ! i = Finite 0 \<longrightarrow> fahrenheit st ! i = Finite 32) \<and>
              (temps ! i = Finite 100 \<longrightarrow> fahrenheit st ! i = Finite 212))"
proof -
  from compute_stats_nonempty[OF assms] obtain st where
    st: "compute_stats temps = Inr st"
    and f: "fahrenheit st =
      map (\<lambda>x. fl_add x (Finite 32))
        (map (\<lambda>x. fl_div x (Finite 5)) (map (\<lambda>x. fl_mul x (Finite 9)) temps))"
    by force
  have l: "length (fahrenheit st) = length temps" using f by simp
  have p: "fahrenheit st ! i = fl_add (fl_div (fl_mul (temps ! i) (Finite 9)) (Finite 5)) (Finite 32)"
    if "i < length temps" for i
    using f that by simp
  have "(temps ! i = Finite 0 \<longrightarrow> fahrenheit st ! i = Finite 32) \<and>
        (temps ! i = Finite 100 \<longrightarrow> fahrenheit st ! i = Finite 212)"
    if "i < length temps" for i
    using p[OF that] fahrenheit_0 fahrenheit_100 by simp
  with st l p show ?thesis by blast
qed

theorem fahrenheit_pointwise_witness:
  "[Finite 0, Finite 100, Finite (31 / 2)] \<noteq> [] \<and>
   (\<exists>st. compute_stats [Finite 0, Finite 100, Finite (31 / 2)] = Inr st \<and>
      length (fahrenheit st) = 3 \<and>
      fahrenheit st ! 0 = Finite 32 \<and> fahrenheit st ! 1 = Finite 212 \<and>
      fahrenheit st ! 2 =
        fl_add (fl_div (fl_mul (Finite (31 / 2)) (Finite 9)) (Finite 5)) (Finite 32))"
proof -
  let ?t = "[Finite 0, Finite 100, Finite (31 / 2)]"
  have n: "?t \<noteq> []" by simp
  from fahrenheit_pointwise [OF n] obtain st where
    st: "compute_stats ?t = Inr st" "length (fahrenheit st) = length ?t"
    and p: "\<forall>i<length ?t. fahrenheit st ! i =
                fl_add (fl_div (fl_mul (?t ! i) (Finite 9)) (Finite 5)) (Finite 32)"
    and q: "\<forall>i<length ?t.
              (?t ! i = Finite 0 \<longrightarrow> fahrenheit st ! i = Finite 32) \<and>
              (?t ! i = Finite 100 \<longrightarrow> fahrenheit st ! i = Finite 212)"
    by blast
  from q have "fahrenheit st ! 0 = Finite 32" "fahrenheit st ! 1 = Finite 212"
    by (simp_all add: numeral_3_eq_3 All_less_Suc)
  moreover from p have "fahrenheit st ! 2 =
        fl_add (fl_div (fl_mul (Finite (31 / 2)) (Finite 9)) (Finite 5)) (Finite 32)"
    by (simp add: numeral_3_eq_3 numeral_2_eq_2 All_less_Suc)
  ultimately show ?thesis using st n by auto
qed









text \<open>
  The summary of the series 18, 20, 22.5, 15: highest 22.5, lowest 15, average 18.875,
  one day above 20 degrees, four days.
\<close>

theorem summary_example:
  "compute_stats [Finite 18, Finite 20, Finite (45 / 2), Finite 15] =
     Inr \<lparr>highest_c = Finite (45 / 2), lowest_c = Finite 15, average_c = Finite (151 / 8),
          fahrenheit = [Finite (2265873562520781 / 2 ^ 45), Finite 68, Finite (145 / 2), Finite 59],
          days_above_20c = 1, count = 4\<rparr>"
  by code_simp

section \<open>The half sum of two JSON numbers\<close>

lemma to_float_int:
  "to_float (Inl i) = (case double_of_int i of None \<Rightarrow> Inl OverflowError | Some x \<Rightarrow> Inr x)"
  by (simp add: to_float_def float_of_int_def double_of_int_def split: double.splits)

lemma to_float_float: "to_float (Inr x) = Inr x"
  by (simp add: to_float_def)

lemma num_of_cases:
  "num_of v =
     (case int_value v of
        Some i \<Rightarrow> Some (Inl i)
      | None \<Rightarrow> (case v of PyFloat x \<Rightarrow> Some (Inr x) | _ \<Rightarrow> None))"
  by (cases v) (simp_all add: num_of_def int_value_def)

lemma operand_cases:
  "operand v =
     (case num_of v of
        None \<Rightarrow> None
      | Some n \<Rightarrow> (case to_float n of Inl e \<Rightarrow> None | Inr x \<Rightarrow> Some x))"
  by (cases v)
     (simp_all add: operand_def num_of_def int_value_def to_float_int to_float_float
        split: option.splits)

lemma py_add_not_numbers:
  "num_of a = None \<or> num_of b = None \<Longrightarrow>
     py_add a b = Inl TypeError \<or> (\<exists>s. py_add a b = Inr (PyStr s)) \<or> (\<exists>xs. py_add a b = Inr (PyList xs))"
  by (cases a; cases b) (simp_all add: py_add_def num_of_def)

lemma daily_mean_not_numbers:
  assumes "num_of a = None \<or> num_of b = None"
  shows "daily_mean a b = Inl TypeError"
  using py_add_not_numbers[OF assms]
  by (auto simp: daily_mean_def py_truediv_float_def num_of_def)

lemma int_value_num_of: "(int_value v = Some i) = (num_of v = Some (Inl i))"
  by (cases v) (auto simp: int_value_def num_of_def)

lemma int_value_None: "(int_value v = None) = (\<forall>i. num_of v \<noteq> Some (Inl i))"
  by (cases v) (auto simp: int_value_def num_of_def)

lemma daily_mean_ints:
  assumes "num_of a = Some (Inl i)" "num_of b = Some (Inl j)"
  shows "daily_mean a b =
     (case double_of_int (i + j) of None \<Rightarrow> Inl OverflowError | Some s \<Rightarrow> Inr (fl_div s (Finite 2)))"
proof -
  have "py_add a b = Inr (PyInt (i + j))" using assms by (simp add: py_add_def)
  then show ?thesis
    by (simp add: daily_mean_def py_truediv_float_def num_of_def to_float_int split: option.splits)
qed

lemma daily_mean_mixed:
  assumes "num_of a = Some m" "num_of b = Some n" "\<not> (\<exists>i j. m = Inl i \<and> n = Inl j)"
  shows "daily_mean a b =
     (case to_float m of
        Inl e \<Rightarrow> Inl e
      | Inr x \<Rightarrow> (case to_float n of Inl e \<Rightarrow> Inl e | Inr y \<Rightarrow> Inr (fl_div (fl_add x y) (Finite 2))))"
proof -
  have "py_add a b =
     (case to_float m of
        Inl e \<Rightarrow> Inl e
      | Inr x \<Rightarrow> (case to_float n of Inl e \<Rightarrow> Inl e | Inr y \<Rightarrow> Inr (PyFloat (fl_add x y))))"
    using assms by (cases m; cases n) (auto simp: py_add_def)
  then show ?thesis
    by (simp add: daily_mean_def py_truediv_float_def num_of_def to_float_float split: sum.splits)
qed

lemma half_sum_ints:
  assumes "num_of a = Some (Inl i)" "num_of b = Some (Inl j)"
  shows "half_sum a b =
     (case double_of_int (i + j) of None \<Rightarrow> None | Some s \<Rightarrow> Some (fl_div s (Finite 2)))"
  using assms by (simp add: half_sum_def int_value_num_of[symmetric])

lemma half_sum_mixed:
  assumes "num_of a = Some m" "num_of b = Some n" "\<not> (\<exists>i j. m = Inl i \<and> n = Inl j)"
  shows "half_sum a b =
     (case to_float m of
        Inl e \<Rightarrow> None
      | Inr x \<Rightarrow> (case to_float n of Inl e \<Rightarrow> None | Inr y \<Rightarrow> Some (fl_div (fl_add x y) (Finite 2))))"
proof -
  have "int_value a = None \<or> int_value b = None"
    using assms by (auto simp: int_value_None)
  then have "half_sum a b =
      (case (operand a, operand b) of
         (Some x, Some y) \<Rightarrow> Some (fl_div (fl_add x y) (Finite 2))
       | _ \<Rightarrow> None)"
    by (auto simp: half_sum_def split: option.splits)
  then show ?thesis using assms(1,2)
    by (simp add: operand_cases split: sum.splits option.splits)
qed

lemma half_sum_not_numbers:
  assumes "num_of a = None \<or> num_of b = None"
  shows "half_sum a b = None"
proof -
  from assms have "operand a = None \<or> operand b = None" by (auto simp: operand_cases)
  moreover from assms have "int_value a = None \<or> int_value b = None"
    by (auto simp: int_value_None)
  ultimately show ?thesis by (auto simp: half_sum_def split: option.splits)
qed

lemma daily_mean_half_sum:
  "daily_mean mx mn =
     (case half_sum mx mn of
        Some m \<Rightarrow> Inr m
      | None \<Rightarrow> if is_number mx \<and> is_number mn then Inl OverflowError else Inl TypeError)"
proof (cases "num_of mx = None \<or> num_of mn = None")
  case True
  then show ?thesis
    using daily_mean_not_numbers[OF True] half_sum_not_numbers[OF True]
    by (auto simp: is_number_def)
next
  case False
  then obtain m n where mn: "num_of mx = Some m" "num_of mn = Some n" by auto
  then have num: "is_number mx \<and> is_number mn" by (simp add: is_number_def)
  show ?thesis
  proof (cases "\<exists>i j. m = Inl i \<and> n = Inl j")
    case True
    then obtain i j where "m = Inl i" "n = Inl j" by blast
    with mn show ?thesis
      using num by (simp add: daily_mean_ints half_sum_ints split: option.splits)
  next
    case False
    have e: "to_float k = Inl err \<Longrightarrow> err = OverflowError" for k err
      by (auto simp: to_float_def float_of_int_def split: sum.splits double.splits)
    show ?thesis
      using num e by (auto simp: daily_mean_mixed[OF mn False] half_sum_mixed[OF mn False]
          split: sum.splits)
  qed
qed

lemma daily_mean_returns: "(daily_mean mx mn = Inr m) = (half_sum mx mn = Some m)"
  by (cases "half_sum mx mn") (auto simp: daily_mean_half_sum)

lemma mean_series_half_sums:
  "(mean_series ps = Inr ms) = (map (\<lambda>p. half_sum (fst p) (snd p)) ps = map Some ms)"
proof (induction ps arbitrary: ms)
  case Nil
  then show ?case by auto
next
  case (Cons p ps)
  show ?case
  proof (cases ms)
    case Nil
    then show ?thesis by (simp split: sum.splits)
  next
    case c: (Cons m ms')
    show ?thesis
    proof (cases "daily_mean (fst p) (snd p)")
      case (Inl err)
      then have "half_sum (fst p) (snd p) \<noteq> Some m"
        using daily_mean_returns[of "fst p" "snd p" m] by simp
      with Inl show ?thesis unfolding c by simp
    next
      case (Inr m')
      then have "half_sum (fst p) (snd p) = Some m'" by (simp add: daily_mean_returns)
      with Inr Cons.IH[of ms'] show ?thesis unfolding c by (auto split: sum.splits)
    qed
  qed
qed

lemma mean_series_returns:
  "(\<exists>ms. mean_series ps = Inr ms) = (\<forall>p\<in>set ps. half_sum (fst p) (snd p) \<noteq> None)"
proof (induction ps)
  case Nil
  then show ?case by simp
next
  case (Cons p ps)
  show ?case
  proof (cases "half_sum (fst p) (snd p)")
    case None
    then show ?thesis by (simp add: daily_mean_half_sum)
  next
    case (Some m)
    show ?thesis
    proof (cases "mean_series ps")
      case (Inl e)
      with Cons have "\<not> (\<forall>p\<in>set ps. half_sum (fst p) (snd p) \<noteq> None)" by simp
      with Inl Some show ?thesis by (simp add: daily_mean_half_sum)
    next
      case (Inr ms)
      with Cons have "\<forall>p\<in>set ps. half_sum (fst p) (snd p) \<noteq> None" by auto
      with Inr Some show ?thesis by (simp add: daily_mean_half_sum)
    qed
  qed
qed

lemma mean_series_fails:
  "mean_series ps = Inl err \<Longrightarrow> err = TypeError \<or> err = OverflowError"
proof (induction ps)
  case Nil
  then show ?case by simp
next
  case (Cons p ps)
  then show ?case
    by (auto simp: daily_mean_half_sum split: sum.splits option.splits if_splits)
qed

text \<open>
  Claim C2. When the weather endpoint delivers a maximum and a minimum array of the
  same length \<open>n\<close> and the fetcher accepts them, the mean series has length \<open>n\<close>, and
  its element \<open>i\<close> is the half sum of the two entries \<open>i\<close>, whatever JSON numbers
  they are: for two floats the double sum divided by two, for two integers their exact
  sum as a double divided by two, for an integer and a float the double sum of the
  converted integer and the float, divided by two. No other rounding is applied.
\<close>

theorem mean_is_half_sum:
  assumes reply: "weather_reply ev la lo s e uc (PyList mxs) (PyList mns) dates"
    and len: "length mxs = n" "length mns = n"
    and accepted: "fetch_daily_mean_temperature ev la lo s e uc = Inr (means, a, b, c)"
  shows "length means = n \<and>
         (\<forall>i<n. half_sum (mxs ! i) (mns ! i) = Some (means ! i)) \<and>
         (\<forall>i<n. \<forall>x y. mxs ! i = PyFloat x \<and> mns ! i = PyFloat y \<longrightarrow>
              means ! i = fl_div (fl_add x y) (Finite 2)) \<and>
         (\<forall>i<n. \<forall>j k. mxs ! i = PyInt j \<and> mns ! i = PyInt k \<longrightarrow>
              means ! i = fl_div (round_double (of_int (j + k))) (Finite 2)) \<and>
         (\<forall>i<n. \<forall>j y. mxs ! i = PyInt j \<and> mns ! i = PyFloat y \<longrightarrow>
              means ! i = fl_div (fl_add (round_double (of_int j)) y) (Finite 2)) \<and>
         (\<forall>i<n. \<forall>x k. mxs ! i = PyFloat x \<and> mns ! i = PyInt k \<longrightarrow>
              means ! i = fl_div (fl_add x (round_double (of_int k))) (Finite 2))"
proof -
  from accepted fetch_of_reply[OF reply]
  have "derive_means (PyList mxs) (PyList mns) dates = Inr (means, a, b, c)" by simp
  then have ms: "mean_series (zip mxs mns) = Inr means" by (simp add: derive_means_lists)
  have l: "length means = n" using mean_series_length[OF ms] len by simp
  have h: "half_sum (mxs ! i) (mns ! i) = Some (means ! i)" if "i < n" for i
    using mean_series_nth[OF ms, of i] that len by (simp add: daily_mean_returns)
  have d: "double_of_int j = Some x \<Longrightarrow> x = round_double (of_int j)" for j x
    by (auto simp: double_of_int_def split: double.splits)
  have ff: "means ! i = fl_div (fl_add x y) (Finite 2)"
    if "i < n" "mxs ! i = PyFloat x" "mns ! i = PyFloat y" for i x y
    using h[OF that(1)] that(2,3) by (simp add: half_sum_def int_value_def operand_def)
  have ii: "means ! i = fl_div (round_double (of_int (j + k))) (Finite 2)"
    if "i < n" "mxs ! i = PyInt j" "mns ! i = PyInt k" for i j k
    using h[OF that(1)] that(2,3) d[of "j + k"]
    by (auto simp: half_sum_def int_value_def split: option.splits)
  have "if": "means ! i = fl_div (fl_add (round_double (of_int j)) y) (Finite 2)"
    if "i < n" "mxs ! i = PyInt j" "mns ! i = PyFloat y" for i j y
    using h[OF that(1)] that(2,3) d[of j]
    by (auto simp: half_sum_def int_value_def operand_def split: option.splits)
  have fi: "means ! i = fl_div (fl_add x (round_double (of_int k))) (Finite 2)"
    if "i < n" "mxs ! i = PyFloat x" "mns ! i = PyInt k" for i x k
    using h[OF that(1)] that(2,3) d[of k]
    by (auto simp: half_sum_def int_value_def operand_def split: option.splits)
  show ?thesis using l h ff ii "if" fi by blast
qed

theorem mean_is_half_sum_witness:
  "weather_reply (serving paris mixed_days) (Finite 48) (Finite 2) ''2024-06-01'' ''2024-06-07'' True
     (PyList [PyFloat (Finite 21), PyInt 25, PyInt 30, PyBool True])
     (PyList [PyFloat (Finite 10), PyFloat (Finite 16), PyInt 15, PyInt 2])
     (PyList [PyStr ''2024-06-01'', PyStr ''2024-06-02'', PyStr ''2024-06-03'', PyStr ''2024-06-04'']) \<and>
   fetch_daily_mean_temperature (serving paris mixed_days) (Finite 48) (Finite 2)
       ''2024-06-01'' ''2024-06-07'' True =
     Inr ([Finite (31 / 2), Finite (41 / 2), Finite (45 / 2), Finite (3 / 2)],
          [PyFloat (Finite 21), PyInt 25, PyInt 30, PyBool True],
          [PyFloat (Finite 10), PyFloat (Finite 16), PyInt 15, PyInt 2],
          [PyStr ''2024-06-01'', PyStr ''2024-06-02'', PyStr ''2024-06-03'', PyStr ''2024-06-04'']) \<and>
   length [Finite (31 / 2), Finite (41 / 2), Finite (45 / 2), Finite (3 / 2)] = (4::nat) \<and>
   half_sum (PyFloat (Finite 21)) (PyFloat (Finite 10)) = Some (Finite (31 / 2)) \<and>
   half_sum (PyInt 25) (PyFloat (Finite 16)) = Some (Finite (41 / 2)) \<and>
   half_sum (PyInt 30) (PyInt 15) = Some (Finite (45 / 2)) \<and>
   half_sum (PyBool True) (PyInt 2) = Some (Finite (3 / 2)) \<and>
   Finite (31 / 2) = fl_div (fl_add (Finite 21) (Finite 10)) (Finite 2) \<and>
   Finite (41 / 2) = fl_div (fl_add (round_double (of_int 25)) (Finite 16)) (Finite 2) \<and>
   Finite (45 / 2) = fl_div (round_double (of_int (30 + 15))) (Finite 2)"
proof -
  let ?mxs = "[PyFloat (Finite 21), PyInt 25, PyInt 30, PyBool True]"
  let ?mns = "[PyFloat (Finite 10), PyFloat (Finite 16), PyInt 15, PyInt 2]"
  let ?ds = "[PyStr ''2024-06-01'', PyStr ''2024-06-02'', PyStr ''2024-06-03'', PyStr ''2024-06-04'']"
  let ?ms = "[Finite (31 / 2), Finite (41 / 2), Finite (45 / 2), Finite (3 / 2)]"
  have reply:
    "weather_reply (serving paris mixed_days) (Finite 48) (Finite 2) ''2024-06-01'' ''2024-06-07'' True
       (PyList ?mxs) (PyList ?mns) (PyList ?ds)"
    by code_simp
  have accepted:
    "fetch_daily_mean_temperature (serving paris mixed_days) (Finite 48) (Finite 2)
         ''2024-06-01'' ''2024-06-07'' True = Inr (?ms, ?mxs, ?mns, ?ds)"
    by code_simp
  have "half_sum (?mxs ! 0) (?mns ! 0) = Some (?ms ! 0) \<and>
        half_sum (?mxs ! 1) (?mns ! 1) = Some (?ms ! 1) \<and>
        half_sum (?mxs ! 2) (?mns ! 2) = Some (?ms ! 2) \<and>
        half_sum (?mxs ! 3) (?mns ! 3) = Some (?ms ! 3) \<and>
        ?ms ! 0 = fl_div (fl_add (Finite 21) (Finite 10)) (Finite 2) \<and>
        ?ms ! 1 = fl_div (fl_add (round_double (of_int 25)) (Finite 16)) (Finite 2) \<and>
        ?ms ! 2 = fl_div (round_double (of_int (30 + 15))) (Finite 2)"
    using mean_is_half_sum [OF reply _ _ accepted, of 4]
    by (simp add: numeral_eq_Suc All_less_Suc)
  then show ?thesis using reply accepted by simp
qed

section \<open>Missing data, exactly\<close>

lemma reply_of_body:
  assumes get: "http_get ev (weather_request la lo s e uc) = Inr resp"
    and ok: "status_code resp = 200"
    and body: "json_body resp = Some (PyDict d)"
    and daily: "daily_object d = Some dd"
  shows "weather_reply ev la lo s e uc (member dd ''temperature_2m_max'')
           (member dd ''temperature_2m_min'') (member dd ''time'')"
proof -
  have r: "weather_response ev la lo s e uc = Inr (PyDict d)"
    using get ok body by (simp add: weather_response_def resp_json_def)
  have g: "dict_get (PyDict d) ''daily'' (PyDict []) = Inr (PyDict dd)"
    using daily by (auto simp: dict_get_def daily_object_def split: option.splits pyval.splits)
  have m: "dict_get (PyDict dd) k PyNone = Inr (member dd k)" for k
    by (simp add: dict_get_def member_def split: option.splits)
  show ?thesis
    by (simp add: weather_reply_def r daily_fields_def g m)
qed

lemma derive_means_fails:
  assumes "truthy tmax" "truthy tmin" "truthy dates"
    and "derive_means tmax tmin dates = Inl err"
  shows "err = TypeError \<or> err = OverflowError"
proof -
  have "err' = TypeError" if "py_iter v = Inl err'" for v err'
    using that by (auto simp: py_iter_def split: pyval.splits)
  with assms mean_series_fails show ?thesis
    by (auto simp: derive_means_def split: sum.splits)
qed

lemma derive_means_returns:
  assumes "mxs \<noteq> []" "mns \<noteq> []" "ds \<noteq> []"
  shows "(\<exists>means. derive_means (PyList mxs) (PyList mns) (PyList ds) = Inr (means, mxs, mns, ds)) =
         (\<forall>p\<in>set (zip mxs mns). half_sum (fst p) (snd p) \<noteq> None)"
proof -
  have "(\<exists>means. derive_means (PyList mxs) (PyList mns) (PyList ds) = Inr (means, mxs, mns, ds)) =
        (\<exists>means. mean_series (zip mxs mns) = Inr means)"
    using assms by (auto simp: derive_means_def truthy_def py_iter_def split: sum.splits)
  then show ?thesis by (simp add: mean_series_returns)
qed

text \<open>
  Claim C3, amended. The response has status 200, its JSON body is an object, the
  \<open>daily\<close> member of the body is an object or is absent, and each of the three series
  is an array where it is present. Then the fetcher fails with the missing-data error
  exactly when one of the three series, the dates as well as the two temperature
  series, is missing (absent or \<open>null\<close>) or empty. Otherwise it returns the mean
  series with the maximum, minimum and date series as received exactly when the two
  entries of every pair that \<open>zip\<close> forms are JSON numbers with a half sum, and
  fails with a type error or an overflow error when they are not.
\<close>

theorem missing_data_iff:
  assumes get: "http_get ev (weather_request la lo s e uc) = Inr resp"
    and ok: "status_code resp = 200"
    and body: "json_body resp = Some (PyDict d)"
    and daily: "daily_object d = Some dd"
    and tmax: "tmax = member dd ''temperature_2m_max''"
    and tmin: "tmin = member dd ''temperature_2m_min''"
    and dates: "dates = member dd ''time''"
    and series: "is_series tmax" "is_series tmin" "is_series dates"
  shows "(fetch_daily_mean_temperature ev la lo s e uc = Inl missing_data) =
           (lacking tmax \<or> lacking tmin \<or> lacking dates) \<and>
         (\<not> lacking tmax \<and> \<not> lacking tmin \<and> \<not> lacking dates \<longrightarrow>
            ((\<exists>means. fetch_daily_mean_temperature ev la lo s e uc =
                 Inr (means, elements tmax, elements tmin, elements dates)) =
             (\<forall>p\<in>set (zip (elements tmax) (elements tmin)). half_sum (fst p) (snd p) \<noteq> None)) \<and>
            ((\<exists>means. fetch_daily_mean_temperature ev la lo s e uc =
                 Inr (means, elements tmax, elements tmin, elements dates)) \<or>
             fetch_daily_mean_temperature ev la lo s e uc = Inl TypeError \<or>
             fetch_daily_mean_temperature ev la lo s e uc = Inl OverflowError))"
proof -
  have f: "fetch_daily_mean_temperature ev la lo s e uc = derive_means tmax tmin dates"
    unfolding tmax tmin dates by (rule fetch_of_reply[OF reply_of_body[OF get ok body daily]])
  have 1: "(fetch_daily_mean_temperature ev la lo s e uc = Inl missing_data) =
           (lacking tmax \<or> lacking tmin \<or> lacking dates)"
    unfolding f using series by (simp add: derive_means_missing series_truthy)
  have 2: "((\<exists>means. fetch_daily_mean_temperature ev la lo s e uc =
                 Inr (means, elements tmax, elements tmin, elements dates)) =
             (\<forall>p\<in>set (zip (elements tmax) (elements tmin)). half_sum (fst p) (snd p) \<noteq> None)) \<and>
            ((\<exists>means. fetch_daily_mean_temperature ev la lo s e uc =
                 Inr (means, elements tmax, elements tmin, elements dates)) \<or>
             fetch_daily_mean_temperature ev la lo s e uc = Inl TypeError \<or>
             fetch_daily_mean_temperature ev la lo s e uc = Inl OverflowError)"
    if a: "\<not> lacking tmax \<and> \<not> lacking tmin \<and> \<not> lacking dates"
  proof -
    from a series series_elements
    have l: "tmax = PyList (elements tmax)" "tmin = PyList (elements tmin)"
        "dates = PyList (elements dates)"
      and n: "elements tmax \<noteq> []" "elements tmin \<noteq> []" "elements dates \<noteq> []"
      by blast+
    have t: "truthy tmax" "truthy tmin" "truthy dates"
      using a series by (simp_all add: series_truthy)
    have r: "(\<exists>means. derive_means tmax tmin dates =
                 Inr (means, elements tmax, elements tmin, elements dates)) =
             (\<forall>p\<in>set (zip (elements tmax) (elements tmin)). half_sum (fst p) (snd p) \<noteq> None)"
      using derive_means_returns[OF n] l by simp
    have "(\<exists>means. derive_means tmax tmin dates =
                 Inr (means, elements tmax, elements tmin, elements dates)) \<or>
          derive_means tmax tmin dates = Inl TypeError \<or>
          derive_means tmax tmin dates = Inl OverflowError"
    proof (cases "derive_means tmax tmin dates")
      case (Inl err)
      with derive_means_fails[OF t] show ?thesis by auto
    next
      case (Inr res)
      obtain means a b c where res: "res = (means, a, b, c)" by (cases res) auto
      from Inr res l have "derive_means (PyList (elements tmax)) (PyList (elements tmin)) dates =
          Inr (means, a, b, c)" by simp
      moreover have "py_iter dates = Inr (elements dates)"
        by (subst l(3)) (simp add: py_iter_def)
      ultimately have "a = elements tmax" "b = elements tmin" "c = elements dates"
        using derive_means_lists[of "elements tmax" "elements tmin" dates means a b c] by simp_all
      with Inr res show ?thesis by simp
    qed
    with r show ?thesis unfolding f by blast
  qed
  from 1 2 show ?thesis by blast
qed

text \<open>
  The claim as stated fails in three ways. A response with all three series and two
  non-empty temperature series, but an empty date series, raises the missing-data
  error. The body \<open>{"daily": null}\<close> lacks all three series and raises an attribute
  error, not the missing-data error. A \<open>null\<close> among the temperatures raises a type
  error where the claim has the four sequences returned.
\<close>

theorem missing_data_iff_counterexample:
  "fetch_daily_mean_temperature (serving paris no_dates) (Finite 48) (Finite 2)
       ''2024-06-01'' ''2024-06-07'' True =
     Inl (RuntimeError ''No daily temperature data returned from Open-Meteo'') \<and>
   json_body no_dates =
     Some (PyDict [(''daily'',
       PyDict [(''time'', PyList []),
               (''temperature_2m_max'', PyList [PyFloat (Finite 21)]),
               (''temperature_2m_min'', PyList [PyFloat (Finite 10)])])]) \<and>
   fetch_daily_mean_temperature (serving paris daily_null) (Finite 48) (Finite 2)
       ''2024-06-01'' ''2024-06-07'' True = Inl AttributeError \<and>
   json_body daily_null = Some (PyDict [(''daily'', PyNone)]) \<and>
   fetch_daily_mean_temperature (serving paris null_temperature) (Finite 48) (Finite 2)
       ''2024-06-01'' ''2024-06-07'' True = Inl TypeError \<and>
   json_body null_temperature =
     Some (PyDict [(''daily'',
       PyDict [(''time'', PyList [PyStr ''2024-06-01'']),
               (''temperature_2m_max'', PyList [PyNone]),
               (''temperature_2m_min'', PyList [PyFloat (Finite 10)])])])"
  by code_simp

theorem missing_data_iff_witness:
  "http_get (serving paris no_dates)
       (weather_request (Finite 48) (Finite 2) ''2024-06-01'' ''2024-06-07'' True) = Inr no_dates \<and>
   status_code no_dates = 200 \<and>
   json_body no_dates =
     Some (PyDict [(''daily'',
       PyDict [(''time'', PyList []),
               (''temperature_2m_max'', PyList [PyFloat (Finite 21)]),
               (''temperature_2m_min'', PyList [PyFloat (Finite 10)])])]) \<and>
   lacking (PyList []) \<and>
   fetch_daily_mean_temperature (serving paris no_dates) (Finite 48) (Finite 2)
       ''2024-06-01'' ''2024-06-07'' True = Inl missing_data \<and>
   http_get (serving paris two_days)
       (weather_request (Finite 48) (Finite 2) ''2024-06-01'' ''2024-06-07'' True) = Inr two_days \<and>
   (\<exists>means. fetch_daily_mean_temperature (serving paris two_days) (Finite 48) (Finite 2)
       ''2024-06-01'' ''2024-06-07'' True =
     Inr (means, [PyFloat (Finite 21), PyInt 25], [PyFloat (Finite 10), PyFloat (Finite 16)],
          [PyStr ''2024-06-01'', PyStr ''2024-06-02'']))"
proof -
  let ?req = "weather_request (Finite 48) (Finite 2) ''2024-06-01'' ''2024-06-07'' True"
  let ?dd = "[(''time'', PyList []),
              (''temperature_2m_max'', PyList [PyFloat (Finite 21)]),
              (''temperature_2m_min'', PyList [PyFloat (Finite 10)])]"
  let ?d = "[(''daily'', PyDict ?dd)]"
  have get: "http_get (serving paris no_dates) ?req = Inr no_dates" by code_simp
  have ok: "status_code no_dates = 200" by code_simp
  have body: "json_body no_dates = Some (PyDict ?d)" by code_simp
  have daily: "daily_object ?d = Some ?dd" by code_simp
  have tmax: "PyList [PyFloat (Finite 21)] = member ?dd ''temperature_2m_max''" by code_simp
  have tmin: "PyList [PyFloat (Finite 10)] = member ?dd ''temperature_2m_min''" by code_simp
  have dates: "PyList [] = member ?dd ''time''" by code_simp
  have series: "is_series (PyList [PyFloat (Finite 21)])" "is_series (PyList [PyFloat (Finite 10)])"
      "is_series (PyList [])"
    by (simp_all add: is_series_def)
  have l: "lacking (PyList [])" by (simp add: lacking_def)
  from missing_data_iff [OF get ok body daily tmax tmin dates series] l
  have 1: "fetch_daily_mean_temperature (serving paris no_dates) (Finite 48) (Finite 2)
       ''2024-06-01'' ''2024-06-07'' True = Inl missing_data"
    by blast
  let ?mxs = "[PyFloat (Finite 21), PyInt 25]"
  let ?mns = "[PyFloat (Finite 10), PyFloat (Finite 16)]"
  let ?ds = "[PyStr ''2024-06-01'', PyStr ''2024-06-02'']"
  let ?dd2 = "[(''time'', PyList ?ds), (''temperature_2m_max'', PyList ?mxs),
               (''temperature_2m_min'', PyList ?mns)]"
  let ?d2 = "[(''daily'', PyDict ?dd2)]"
  have get2: "http_get (serving paris two_days) ?req = Inr two_days" by code_simp
  have ok2: "status_code two_days = 200" by code_simp
  have body2: "json_body two_days = Some (PyDict ?d2)" by code_simp
  have daily2: "daily_object ?d2 = Some ?dd2" by code_simp
  have tmax2: "PyList ?mxs = member ?dd2 ''temperature_2m_max''" by code_simp
  have tmin2: "PyList ?mns = member ?dd2 ''temperature_2m_min''" by code_simp
  have dates2: "PyList ?ds = member ?dd2 ''time''" by code_simp
  have series2: "is_series (PyList ?mxs)" "is_series (PyList ?mns)" "is_series (PyList ?ds)"
    by (simp_all add: is_series_def)
  have n2: "\<not> lacking (PyList ?mxs) \<and> \<not> lacking (PyList ?mns) \<and> \<not> lacking (PyList ?ds)"
    by (simp add: lacking_def)
  have h2: "\<forall>p\<in>set (zip (elements (PyList ?mxs)) (elements (PyList ?mns))).
      half_sum (fst p) (snd p) \<noteq> None"
    by code_simp
  have el: "elements (PyList ?mxs) = ?mxs" "elements (PyList ?mns) = ?mns" "elements (PyList ?ds) = ?ds"
    by (simp_all add: elements_def)
  from missing_data_iff [OF get2 ok2 body2 daily2 tmax2 tmin2 dates2 series2] n2 h2
  have 2: "\<exists>means. fetch_daily_mean_temperature (serving paris two_days) (Finite 48) (Finite 2)
       ''2024-06-01'' ''2024-06-07'' True = Inr (means, ?mxs, ?mns, ?ds)"
    unfolding el by blast
  from 1 2 get ok body l get2 show ?thesis by blast
qed

section \<open>Rounding to a double\<close>

lemma pow2_powi: "pow2 e = 2 powi e"
  by (simp add: pow2_def power_int_def power_one_over)





lemma pow2_strict_mono: "a < b \<Longrightarrow> pow2 a < pow2 b"
  by (simp add: pow2_powi power_int_strict_increasing)


































section \<open>The average between the extremes\<close>






lemma ten_tenths_sum:
  "np_sum [tenth, tenth, tenth, tenth, tenth, tenth, tenth, tenth, tenth, tenth] = Finite 1"
  by code_simp

lemma ten_tenths_in_turn:
  "foldl fl_add (Finite 0) [tenth, tenth, tenth, tenth, tenth, tenth, tenth, tenth, tenth, tenth] =
     Finite (9007199254740991 / 2 ^ 53)"
  by code_simp

lemma tenth_of_one: "fl_div (Finite 1) (round_double (of_nat 10)) = tenth"
  by code_simp

text \<open>
  Ten days of \<open>0.1\<close> degrees: the pairwise sum of \<open>np.sum\<close> is exactly 1 and the
  average is \<open>0.1\<close> again, where adding the ten elements in turn gives
  \<open>0.9999999999999999\<close>.
\<close>

theorem pairwise_mean_example:
  "np_sum [tenth, tenth, tenth, tenth, tenth, tenth, tenth, tenth, tenth, tenth] = Finite 1 \<and>
   np_mean [tenth, tenth, tenth, tenth, tenth, tenth, tenth, tenth, tenth, tenth] = tenth \<and>
   foldl fl_add (Finite 0) [tenth, tenth, tenth, tenth, tenth, tenth, tenth, tenth, tenth, tenth] =
     Finite (9007199254740991 / 2 ^ 53)"
  using ten_tenths_sum ten_tenths_in_turn tenth_of_one
  by (simp add: np_mean_def)

end
